theory Spec2Isabelle
  imports Complex_Main
begin

section \<open>Python and numpy values\<close>

text \<open>
  The module \<^verbatim>\<open>soprano/calculate/xrd/xrd.py\<close> is embedded function by function. Exceptions
  are values: a function that can raise returns \<open>py_error + 'a\<close>, with \<open>Inl\<close> the exception.
\<close>

datatype py_error = ValueError | TypeError | RuntimeWarning | UnboundLocalError | ZeroDivisionError

text \<open>
  A numpy \<^verbatim>\<open>float64\<close>. Finite values are exact reals: rounding and overflow are not
  modelled, and there is one zero, which divides like \<open>+0\<close>. Infinities and NaN follow
  IEEE 754, which is what numpy computes with (a division by zero is a value there, never an
  exception).
\<close>

datatype npfloat = Fin real | PInf | NInf | NaN

fun fneg :: "npfloat \<Rightarrow> npfloat" where
  "fneg (Fin a) = Fin (- a)"
| "fneg PInf = NInf"
| "fneg NInf = PInf"
| "fneg NaN = NaN"

fun fadd :: "npfloat \<Rightarrow> npfloat \<Rightarrow> npfloat" where
  "fadd (Fin a) (Fin b) = Fin (a + b)"
| "fadd NaN _ = NaN"
| "fadd _ NaN = NaN"
| "fadd PInf NInf = NaN"
| "fadd NInf PInf = NaN"
| "fadd PInf _ = PInf"
| "fadd _ PInf = PInf"
| "fadd NInf _ = NInf"
| "fadd _ NInf = NInf"

definition fsub :: "npfloat \<Rightarrow> npfloat \<Rightarrow> npfloat" where
  "fsub x y = fadd x (fneg y)"

fun fmul :: "npfloat \<Rightarrow> npfloat \<Rightarrow> npfloat" where
  "fmul (Fin a) (Fin b) = Fin (a * b)"
| "fmul NaN _ = NaN"
| "fmul _ NaN = NaN"
| "fmul (Fin a) PInf = (if a = 0 then NaN else if 0 < a then PInf else NInf)"
| "fmul (Fin a) NInf = (if a = 0 then NaN else if 0 < a then NInf else PInf)"
| "fmul PInf (Fin b) = (if b = 0 then NaN else if 0 < b then PInf else NInf)"
| "fmul NInf (Fin b) = (if b = 0 then NaN else if 0 < b then NInf else PInf)"
| "fmul PInf PInf = PInf"
| "fmul PInf NInf = NInf"
| "fmul NInf PInf = NInf"
| "fmul NInf NInf = PInf"

fun fdiv :: "npfloat \<Rightarrow> npfloat \<Rightarrow> npfloat" where
  "fdiv (Fin a) (Fin b) =
     (if b \<noteq> 0 then Fin (a / b) else if a = 0 then NaN else if 0 < a then PInf else NInf)"
| "fdiv NaN _ = NaN"
| "fdiv _ NaN = NaN"
| "fdiv (Fin a) PInf = Fin 0"
| "fdiv (Fin a) NInf = Fin 0"
| "fdiv PInf (Fin b) = (if 0 \<le> b then PInf else NInf)"
| "fdiv NInf (Fin b) = (if 0 \<le> b then NInf else PInf)"
| "fdiv PInf PInf = NaN"
| "fdiv PInf NInf = NaN"
| "fdiv NInf PInf = NaN"
| "fdiv NInf NInf = NaN"

fun fabs :: "npfloat \<Rightarrow> npfloat" where
  "fabs (Fin a) = Fin \<bar>a\<bar>"
| "fabs PInf = PInf"
| "fabs NInf = PInf"
| "fabs NaN = NaN"

fun fsqrt :: "npfloat \<Rightarrow> npfloat" where
  "fsqrt (Fin a) = (if a < 0 then NaN else Fin (sqrt a))"
| "fsqrt PInf = PInf"
| "fsqrt NInf = NaN"
| "fsqrt NaN = NaN"

fun fexp :: "npfloat \<Rightarrow> npfloat" where
  "fexp (Fin a) = Fin (exp a)"
| "fexp PInf = PInf"
| "fexp NInf = Fin 0"
| "fexp NaN = NaN"

text \<open>\<^verbatim>\<open>x ** 2.0\<close>\<close>

definition fpow2 :: "npfloat \<Rightarrow> npfloat" where
  "fpow2 x = fmul x x"

text \<open>Comparisons: every comparison with NaN is false.\<close>

fun flt :: "npfloat \<Rightarrow> npfloat \<Rightarrow> bool" where
  "flt (Fin a) (Fin b) = (a < b)"
| "flt NaN _ = False"
| "flt _ NaN = False"
| "flt _ NInf = False"
| "flt PInf _ = False"
| "flt NInf _ = True"
| "flt _ PInf = True"

definition fgt :: "npfloat \<Rightarrow> npfloat \<Rightarrow> bool" where
  "fgt x y = flt y x"

text \<open>\<^verbatim>\<open>np.sum\<close> of a 1-D array; the sum of no element is 0.\<close>

definition fsum :: "npfloat list \<Rightarrow> npfloat" where
  "fsum xs = foldr fadd xs (Fin 0)"

text \<open>\<^verbatim>\<open>np.amax\<close> of a non-empty 1-D array: a NaN element makes the maximum NaN.\<close>

fun fmax :: "npfloat \<Rightarrow> npfloat \<Rightarrow> npfloat" where
  "fmax NaN _ = NaN"
| "fmax _ NaN = NaN"
| "fmax x y = (if flt x y then y else x)"

definition amax :: "npfloat list \<Rightarrow> npfloat" where
  "amax xs = foldl fmax (hd xs) (tl xs)"

subsection \<open>Broadcasting\<close>

text \<open>
  Two axes of lengths \<open>n\<close> and \<open>m\<close> broadcast when they are equal or one of them is 1;
  otherwise numpy raises \<^verbatim>\<open>ValueError\<close>.
\<close>

definition broadcastable :: "nat \<Rightarrow> nat \<Rightarrow> bool" where
  "broadcastable n m = (n = m \<or> n = 1 \<or> m = 1)"

definition bc_len :: "nat \<Rightarrow> nat \<Rightarrow> nat" where
  "bc_len n m = (if n = m then n else if n = 1 then m else n)"

definition bc_map2 :: "('a \<Rightarrow> 'b \<Rightarrow> 'c) \<Rightarrow> 'a list \<Rightarrow> 'b list \<Rightarrow> 'c list" where
  "bc_map2 f xs ys =
     (if length xs = length ys then map2 f xs ys
      else if length xs = 1 then map (f (hd xs)) ys
      else map (\<lambda>x. f x (hd ys)) xs)"

definition bcast2 :: "('a \<Rightarrow> 'b \<Rightarrow> 'c) \<Rightarrow> 'a list \<Rightarrow> 'b list \<Rightarrow> py_error + 'c list" where
  "bcast2 f xs ys =
     (if broadcastable (length xs) (length ys) then Inr (bc_map2 f xs ys) else Inl ValueError)"

text \<open>
  A 2-D array is its number of columns and its rows: an array of shape \<open>(0, n)\<close> still has
  \<open>n\<close> columns.
\<close>

type_synonym matrix = "nat \<times> npfloat list list"

text \<open>\<^verbatim>\<open>np.sum(m, axis=0)\<close> and \<^verbatim>\<open>np.sum(m, axis=1)\<close>\<close>

definition sum_axis0 :: "matrix \<Rightarrow> npfloat list" where
  "sum_axis0 m = map (\<lambda>j. fsum (map (\<lambda>r. r ! j) (snd m))) [0..<fst m]"

definition sum_axis1 :: "matrix \<Rightarrow> npfloat list" where
  "sum_axis1 m = map fsum (snd m)"

text \<open>\<^verbatim>\<open>col[:, None] op m\<close>, \<^verbatim>\<open>m op col[:, None]\<close> and \<^verbatim>\<open>row[None, :] op m\<close>\<close>

definition col_op :: "(npfloat \<Rightarrow> npfloat \<Rightarrow> npfloat) \<Rightarrow> npfloat list \<Rightarrow> matrix \<Rightarrow> py_error + matrix" where
  "col_op f col m =
     (case bcast2 (\<lambda>c r. map (f c) r) col (snd m) of
        Inl e \<Rightarrow> Inl e
      | Inr rows \<Rightarrow> Inr (fst m, rows))"

definition op_col :: "(npfloat \<Rightarrow> npfloat \<Rightarrow> npfloat) \<Rightarrow> matrix \<Rightarrow> npfloat list \<Rightarrow> py_error + matrix" where
  "op_col f m col =
     (case bcast2 (\<lambda>r c. map (\<lambda>v. f v c) r) (snd m) col of
        Inl e \<Rightarrow> Inl e
      | Inr rows \<Rightarrow> Inr (fst m, rows))"

definition row_op :: "(npfloat \<Rightarrow> npfloat \<Rightarrow> npfloat) \<Rightarrow> npfloat list \<Rightarrow> matrix \<Rightarrow> py_error + matrix" where
  "row_op f row m =
     (if broadcastable (length row) (fst m)
      then Inr (bc_len (length row) (fst m), map (bc_map2 f row) (snd m))
      else Inl ValueError)"

text \<open>
  An in-place operation \<^verbatim>\<open>dst op= src\<close> (and \<^verbatim>\<open>np.copyto(dst, src)\<close>): \<open>src\<close> is broadcast
  to the shape of \<open>dst\<close>, which does not change.
\<close>

definition inplace_op :: "(npfloat \<Rightarrow> npfloat \<Rightarrow> npfloat) \<Rightarrow> npfloat list \<Rightarrow> npfloat list \<Rightarrow> py_error + npfloat list" where
  "inplace_op f dst src =
     (if length src = length dst then Inr (map2 f dst src)
      else if length src = 1 then Inr (map (\<lambda>d. f d (hd src)) dst)
      else Inl ValueError)"

section \<open>Le Bail utility functions\<close>

text \<open>
  \<^verbatim>\<open>_Rwp_eval(simul_int, exp_int)\<close>:
  \<^verbatim>\<open>weights = 1.0/exp_int\<close>,
  \<^verbatim>\<open>sqrt(sum(weights*(exp_int-simul_int)**2.0) / sum(weights*exp_int**2.0))\<close>.
\<close>

definition Rwp_eval :: "npfloat list \<Rightarrow> npfloat list \<Rightarrow> py_error + npfloat" where
  "Rwp_eval simul_int exp_int =
     (let weights = map (fdiv (Fin 1)) exp_int in
      case bcast2 fsub exp_int simul_int of
        Inl e \<Rightarrow> Inl e
      | Inr diff \<Rightarrow>
          (case bcast2 fmul weights (map fpow2 diff) of
             Inl e \<Rightarrow> Inl e
           | Inr num \<Rightarrow>
               Inr (fsqrt (fdiv (fsum num) (fsum (map2 fmul weights (map fpow2 exp_int)))))))"

text \<open>
  \<^verbatim>\<open>_leBail_rescale_I(simul_peaks, simul_spec, exp_spec)\<close>:
  \<^verbatim>\<open>sum_peaks = np.sum(simul_peaks, axis=0)\<close>,
  \<^verbatim>\<open>sum_peaks = np.where(sum_peaks > 0, sum_peaks, np.inf)\<close>,
  \<^verbatim>\<open>np.sum(exp_spec[:, None]*simul_peaks/simul_spec[:, None], axis=0)/sum_peaks\<close>.
\<close>

definition leBail_rescale_I :: "matrix \<Rightarrow> npfloat list \<Rightarrow> npfloat list \<Rightarrow> py_error + npfloat list" where
  "leBail_rescale_I simul_peaks simul_spec exp_spec =
     (let sum_peaks = sum_axis0 simul_peaks;
          sum_peaks = map (\<lambda>s. if fgt s (Fin 0) then s else PInf) sum_peaks
      in case col_op fmul exp_spec simul_peaks of
           Inl e \<Rightarrow> Inl e
         | Inr weighted \<Rightarrow>
             (case op_col fdiv weighted simul_spec of
                Inl e \<Rightarrow> Inl e
              | Inr quot \<Rightarrow> bcast2 fdiv (sum_axis0 quot) sum_peaks))"

text \<open>
  The rescale factor of peak \<open>j\<close> as the specification words it: the term of an axis point
  with \<open>calc[i] == 0\<close> counts as zero, and a column sum equal to zero is replaced by
  \<open>+infinity\<close>.
\<close>

definition spec_rescale_factor :: "npfloat list list \<Rightarrow> npfloat list \<Rightarrow> npfloat list \<Rightarrow> nat \<Rightarrow> npfloat" where
  "spec_rescale_factor contribution calc obs j =
     fdiv (fsum (map (\<lambda>i. if calc ! i = Fin 0 then Fin 0
                           else fdiv (fmul (obs ! i) (contribution ! i ! j)) (calc ! i))
                  [0..<length contribution]))
          (let s = fsum (map (\<lambda>i. contribution ! i ! j) [0..<length contribution])
           in if s = Fin 0 then PInf else s)"

section \<open>Peak functions\<close>

text \<open>
  A peak function is a Python function declared with positional parameters. What
  \<^verbatim>\<open>inspect.getargspec\<close> reads of it are the parameter names (\<open>fn_args\<close>) and the default
  values of the last parameters (\<open>fn_defaults\<close>, \<open>None\<close> when no parameter has one). Its body
  is applied elementwise: to a point of the axis, a peak centre and the values of the
  parameters after the first two.
\<close>

record peak_function =
  fn_args :: "string list"
  fn_defaults :: "npfloat list option"
  fn_body :: "npfloat \<Rightarrow> npfloat \<Rightarrow> npfloat list \<Rightarrow> npfloat"

text \<open>
  The call \<^verbatim>\<open>peak_func(th2_axis[:, None], peaks_th2[None, :], *peak_f_args)\<close>. Python raises
  \<^verbatim>\<open>TypeError\<close> when more arguments are passed than the function has parameters, or when
  a parameter without a default value gets none. The parameters not passed take their
  defaults. The result has one row for each axis point and one column for each peak.
\<close>

definition call_peak_func :: "peak_function \<Rightarrow> npfloat list \<Rightarrow> npfloat list \<Rightarrow> npfloat list \<Rightarrow> py_error + matrix" where
  "call_peak_func f th2_axis peaks_th2 args =
     (let nargs = length (fn_args f);
          defaults = (case fn_defaults f of None \<Rightarrow> [] | Some ds \<Rightarrow> ds);
          given = 2 + length args
      in if nargs < given \<or> given + length defaults < nargs then Inl TypeError
         else let extra = args @ drop (given + length defaults - nargs) defaults
              in Inr (length peaks_th2,
                      map (\<lambda>x. map (\<lambda>x0. fn_body f x x0 extra) peaks_th2) th2_axis))"

text \<open>\<^verbatim>\<open>_gauss_peak_default(x, x0, w)\<close>: \<^verbatim>\<open>np.exp(-((x-x0)/w)**2.0)\<close>\<close>

definition gauss_peak_default :: peak_function where
  "gauss_peak_default =
     \<lparr>fn_args = [''x'', ''x0'', ''w''], fn_defaults = None,
      fn_body = (\<lambda>x x0 ps. fexp (fneg (fpow2 (fdiv (fsub x x0) (hd ps)))))\<rparr>"

section \<open>The calculator\<close>

text \<open>
  An \<^verbatim>\<open>XRDCalculator\<close> object. The attributes \<^verbatim>\<open>_peak_func\<close> and \<^verbatim>\<open>_peak_f_args\<close> do not
  exist before \<^verbatim>\<open>set_peak_func\<close> has assigned them: \<open>None\<close> is the missing attribute.
\<close>

record XRDCalculator =
  self_lambdax :: real
  self_theta2_digits :: int
  self_baseline :: npfloat
  self_peak_func :: "peak_function option"
  self_peak_f_args :: "npfloat list option"

text \<open>
  \<^verbatim>\<open>set_peak_func(self, peak_func=None, peak_f_args=None)\<close> returns the outcome and the
  object as the call leaves it. The two attributes are assigned by the last two statements.
  The test \<^verbatim>\<open>peak_f_args is None\<close> in the Gaussian branch never holds, the first statement
  having replaced \<open>None\<close>.
\<close>

definition set_peak_func :: "XRDCalculator \<Rightarrow> peak_function option \<Rightarrow> npfloat list option \<Rightarrow> (py_error + unit) \<times> XRDCalculator" where
  "set_peak_func self peak_func peak_f_args =
     (let peak_f_args =
            (case peak_f_args of
               None \<Rightarrow> (if peak_func \<noteq> None then [] else [Fin (1 / 10)])
             | Some args \<Rightarrow> args)
      in case peak_func of
           Some f \<Rightarrow>
             (let nargs = int (length (fn_args f));
                  nargs_def = (case fn_defaults f of None \<Rightarrow> 0 | Some ds \<Rightarrow> int (length ds))
              in if nargs < 2 then (Inl ValueError, self)
                 else if nargs - (2 + nargs_def) > int (length peak_f_args)
                   then (Inl ValueError, self)
                 else (Inr (), self\<lparr>self_peak_func := Some f,
                                      self_peak_f_args := Some peak_f_args\<rparr>))
         | None \<Rightarrow>
             (Inr (), self\<lparr>self_peak_func := Some gauss_peak_default,
                            self_peak_f_args := Some (take 1 peak_f_args)\<rparr>))"

text \<open>
  \<^verbatim>\<open>__init__(self, lambdax=1.54056, theta2_digits=6, baseline=0.0, peak_func=None,
  peak_f_args=None)\<close>. The second statement is \<^verbatim>\<open>self.theta2_digits = 6\<close>.
\<close>

definition XRDCalculator_init :: "real \<Rightarrow> int \<Rightarrow> npfloat \<Rightarrow> peak_function option \<Rightarrow> npfloat list option \<Rightarrow> py_error + XRDCalculator" where
  "XRDCalculator_init lambdax theta2_digits baseline peak_func peak_f_args =
     (let self = \<lparr>self_lambdax = lambdax, self_theta2_digits = 6, self_baseline = baseline,
                   self_peak_func = None, self_peak_f_args = None\<rparr>
      in case set_peak_func self peak_func peak_f_args of
           (Inl e, _) \<Rightarrow> Inl e
         | (Inr _, self') \<Rightarrow> Inr self')"

section \<open>Arrays in the store\<close>

text \<open>
  numpy arrays are mutable objects, and the records of the module hold references to them.
  The store is the list of the arrays allocated so far; an address is an index into it.
  An array is a 1-D or 2-D array of floats, an \<open>(N, 3)\<close> array of Miller indices, or the
  array of the groups of Miller indices of the peaks.
\<close>

type_synonym addr = nat

type_synonym miller = "int \<times> int \<times> int"

datatype ndarray =
    Arr1 "npfloat list"
  | Arr2 nat "npfloat list list"
  | HklArr "miller list"
  | HklGroups "miller list list"

type_synonym heap = "ndarray list"

definition alloc :: "heap \<Rightarrow> ndarray \<Rightarrow> addr \<times> heap" where
  "alloc h v = (length h, h @ [v])"

definition lookup :: "heap \<Rightarrow> addr \<Rightarrow> ndarray option" where
  "lookup h a = (if a < length h then Some (h ! a) else None)"

definition store :: "heap \<Rightarrow> addr \<Rightarrow> ndarray \<Rightarrow> heap" where
  "store h a v = h[a := v]"

text \<open>
  The numeric code works on 1-D float arrays. Where it is handed another array, or an
  address that holds none, the model reports \<^verbatim>\<open>TypeError\<close>.
\<close>

definition get_floats :: "heap \<Rightarrow> addr \<Rightarrow> py_error + npfloat list" where
  "get_floats h a = (case lookup h a of Some (Arr1 xs) \<Rightarrow> Inr xs | _ \<Rightarrow> Inl TypeError)"

definition get_matrix :: "heap \<Rightarrow> addr \<Rightarrow> py_error + matrix" where
  "get_matrix h a = (case lookup h a of Some (Arr2 nc rows) \<Rightarrow> Inr (nc, rows) | _ \<Rightarrow> Inl TypeError)"

text \<open>The named tuples \<^verbatim>\<open>XraySpectrum\<close> and \<^verbatim>\<open>XraySpectrumData\<close>.\<close>

record XraySpectrum =
  theta2 :: addr
  hkl :: addr
  hkl_unique :: addr
  invd :: addr
  intensity :: addr
  lambdax :: real

record XraySpectrumData =
  data_theta2 :: addr
  data_intensity :: addr

text \<open>What a caller can pass where a named tuple is expected.\<close>

datatype pyobj = PeakSet XraySpectrum | Dataset XraySpectrumData | OtherObj

section \<open>Spectrum simulation\<close>

text \<open>
  The check of the peak function in \<^verbatim>\<open>xrd_spec_simul\<close>:
  \<^verbatim>\<open>len(inspect.getargspec(peak_func).args) > (2 + len(peak_f_args))\<close> raises
  \<^verbatim>\<open>ValueError\<close>, and \<^verbatim>\<open>len(None)\<close> raises \<^verbatim>\<open>TypeError\<close>. Without a peak function the
  Gaussian is used, with \<^verbatim>\<open>[0.1]\<close> or \<^verbatim>\<open>peak_f_args[:1]\<close>.
\<close>

definition simul_peak_func :: "peak_function option \<Rightarrow> npfloat list option \<Rightarrow> py_error + peak_function \<times> npfloat list" where
  "simul_peak_func peak_func peak_f_args =
     (case peak_func of
        Some f \<Rightarrow>
          (case peak_f_args of
             None \<Rightarrow> Inl TypeError
           | Some args \<Rightarrow>
               if 2 + length args < length (fn_args f) then Inl ValueError else Inr (f, args))
      | None \<Rightarrow>
          Inr (gauss_peak_default,
               case peak_f_args of None \<Rightarrow> [Fin (1 / 10)] | Some args \<Rightarrow> take 1 args))"

text \<open>
  \<^verbatim>\<open>simul_peaks = peaks_int[None, :]*peak_func(th2_axis[:, None], peaks_th2[None, :],
  *peak_f_args)\<close> and
  \<^verbatim>\<open>simul_spec = np.sum(simul_peaks, axis=1) + np.ones(len(th2_axis))*baseline\<close>.
  The row sums and the baseline array both have the length of the axis.
\<close>

definition simul_arrays :: "npfloat list \<Rightarrow> npfloat list \<Rightarrow> npfloat list \<Rightarrow> peak_function \<Rightarrow> npfloat list \<Rightarrow> npfloat \<Rightarrow> py_error + npfloat list \<times> matrix" where
  "simul_arrays peaks_th2 peaks_int th2_axis f args baseline =
     (case call_peak_func f th2_axis peaks_th2 args of
        Inl e \<Rightarrow> Inl e
      | Inr shapes \<Rightarrow>
          (case row_op fmul peaks_int shapes of
             Inl e \<Rightarrow> Inl e
           | Inr simul_peaks \<Rightarrow>
               Inr (map2 fadd (sum_axis1 simul_peaks)
                      (replicate (length th2_axis) (fmul (Fin 1) baseline)),
                    simul_peaks)))"

text \<open>
  \<^verbatim>\<open>xrd_spec_simul(xpeaks, th2_axis, peak_func=None, peak_f_args=None, baseline=0.0)\<close>.
  \<^verbatim>\<open>np.array(x, copy=False)\<close> of an array is the array itself, so the axis of the returned
  dataset is the caller's axis array. The simulated spectrum and the contribution matrix
  are new arrays. An axis that is not a 1-D float array is refused with \<^verbatim>\<open>ValueError\<close>.
\<close>

definition xrd_spec_simul :: "XraySpectrum \<Rightarrow> addr \<Rightarrow> peak_function option \<Rightarrow> npfloat list option \<Rightarrow> npfloat \<Rightarrow> heap \<Rightarrow> (py_error + XraySpectrumData \<times> addr) \<times> heap" where
  "xrd_spec_simul xpeaks th2_axis peak_func peak_f_args baseline h =
     (case lookup h th2_axis of
        None \<Rightarrow> (Inl TypeError, h)
      | Some (Arr1 axis) \<Rightarrow>
          (case simul_peak_func peak_func peak_f_args of
             Inl e \<Rightarrow> (Inl e, h)
           | Inr (f, args) \<Rightarrow>
               (case get_floats h (intensity xpeaks) of
                  Inl e \<Rightarrow> (Inl e, h)
                | Inr peaks_int \<Rightarrow>
                    (case get_floats h (theta2 xpeaks) of
                       Inl e \<Rightarrow> (Inl e, h)
                     | Inr peaks_th2 \<Rightarrow>
                         (case simul_arrays peaks_th2 peaks_int axis f args baseline of
                            Inl e \<Rightarrow> (Inl e, h)
                          | Inr (simul_spec, simul_peaks) \<Rightarrow>
                              (let (a_peaks, h1) = alloc h (Arr2 (fst simul_peaks) (snd simul_peaks));
                                   (a_spec, h2) = alloc h1 (Arr1 simul_spec)
                               in (Inr (\<lparr>data_theta2 = th2_axis, data_intensity = a_spec\<rparr>,
                                        a_peaks), h2))))))
      | Some _ \<Rightarrow> (Inl ValueError, h))"

section \<open>Le Bail refinement\<close>

text \<open>
  \<^verbatim>\<open>copy.deepcopy(xpeaks)\<close> copies the arrays of the tuple in the order of its fields. Its
  memo maps an array already copied to its copy, so two fields that are one array in the
  original are one array in the copy.
\<close>

fun deepcopy_arrays :: "addr list \<Rightarrow> (addr \<times> addr) list \<Rightarrow> heap \<Rightarrow> (py_error + addr list) \<times> heap" where
  "deepcopy_arrays [] memo h = (Inr [], h)"
| "deepcopy_arrays (a # as) memo h =
     (case map_of memo a of
        Some a' \<Rightarrow>
          (case deepcopy_arrays as memo h of
             (Inl e, h') \<Rightarrow> (Inl e, h')
           | (Inr bs, h') \<Rightarrow> (Inr (a' # bs), h'))
      | None \<Rightarrow>
          (case lookup h a of
             None \<Rightarrow> (Inl TypeError, h)
           | Some v \<Rightarrow>
               (let (a', h1) = alloc h v
                in case deepcopy_arrays as ((a, a') # memo) h1 of
                     (Inl e, h') \<Rightarrow> (Inl e, h')
                   | (Inr bs, h') \<Rightarrow> (Inr (a' # bs), h'))))"

definition deepcopy_xpeaks :: "XraySpectrum \<Rightarrow> heap \<Rightarrow> (py_error + XraySpectrum) \<times> heap" where
  "deepcopy_xpeaks x h =
     (case deepcopy_arrays [theta2 x, hkl x, hkl_unique x, invd x, intensity x] [] h of
        (Inr [t, g, u, d, i], h') \<Rightarrow>
          (Inr \<lparr>theta2 = t, hkl = g, hkl_unique = u, invd = d, intensity = i,
                lambdax = lambdax x\<rparr>, h')
      | (Inr _, h') \<Rightarrow> (Inl TypeError, h')
      | (Inl e, h') \<Rightarrow> (Inl e, h'))"

text \<open>
  The local variables of \<^verbatim>\<open>xrd_leBail_Ifit\<close> that the loop assigns. \<^verbatim>\<open>rwp\<close> is unbound
  (\<open>None\<close>) until the loop body has run; \<open>lb_iters\<close> counts the iterations started (the loop
  variable \<^verbatim>\<open>i\<close>, plus one).
\<close>

record lb_state =
  lb_simul_spec :: XraySpectrumData
  lb_simul_peaks :: addr
  lb_rwp0 :: npfloat
  lb_rwp :: "npfloat option"
  lb_iters :: nat

text \<open>
  The statements before the loop, on the copy of the peak set:
  \<^verbatim>\<open>peaks_int = (xpeaks.intensity*0.0)+np.amax(int_axis)/4.0\<close> is a new array, the first
  simulation is \<^verbatim>\<open>xrd_spec_simul(xpeaks, th2_axis, ...)\<close>, and
  \<^verbatim>\<open>rwp0 = _Rwp_eval(simul_spec.intensity, int_axis)\<close>. \<^verbatim>\<open>np.amax\<close> of an empty array raises
  \<^verbatim>\<open>ValueError\<close>. The result is the address of \<^verbatim>\<open>peaks_int\<close> and the variables.
\<close>

definition leBail_start :: "XraySpectrum \<Rightarrow> XraySpectrumData \<Rightarrow> peak_function option \<Rightarrow> npfloat list option \<Rightarrow> npfloat \<Rightarrow> heap \<Rightarrow> (py_error + addr \<times> lb_state) \<times> heap" where
  "leBail_start xpeaks exp_spec peak_func peak_f_args baseline h =
     (let th2_axis = data_theta2 exp_spec;
          int_axis = data_intensity exp_spec
      in case get_floats h (intensity xpeaks) of
           Inl e \<Rightarrow> (Inl e, h)
         | Inr ints \<Rightarrow>
             (case get_floats h int_axis of
                Inl e \<Rightarrow> (Inl e, h)
              | Inr obs \<Rightarrow>
                  if obs = [] then (Inl ValueError, h)
                  else
                    (let start = fdiv (amax obs) (Fin 4);
                         (peaks_int, h1) =
                           alloc h (Arr1 (map (\<lambda>v. fadd (fmul v (Fin 0)) start) ints))
                     in case xrd_spec_simul xpeaks th2_axis peak_func peak_f_args baseline h1 of
                          (Inl e, h2) \<Rightarrow> (Inl e, h2)
                        | (Inr (simul_spec, simul_peaks), h2) \<Rightarrow>
                            (case get_floats h2 (data_intensity simul_spec) of
                               Inl e \<Rightarrow> (Inl e, h2)
                             | Inr simul_int \<Rightarrow>
                                 (case get_floats h2 int_axis of
                                    Inl e \<Rightarrow> (Inl e, h2)
                                  | Inr obs2 \<Rightarrow>
                                      (case Rwp_eval simul_int obs2 of
                                         Inl e \<Rightarrow> (Inl e, h2)
                                       | Inr rwp0 \<Rightarrow>
                                           (Inr (peaks_int,
                                                 \<lparr>lb_simul_spec = simul_spec,
                                                  lb_simul_peaks = simul_peaks,
                                                  lb_rwp0 = rwp0, lb_rwp = None,
                                                  lb_iters = 0\<rparr>), h2)))))))"

text \<open>
  The body of the loop. It returns the variables and whether \<^verbatim>\<open>break\<close> was executed:
  \<^verbatim>\<open>delta_rwp = abs((rwp-rwp0)/rwp)\<close>, \<^verbatim>\<open>if delta_rwp < rwp_tol: break\<close>,
  \<^verbatim>\<open>rwp0 = rwp\<close>.
\<close>

definition leBail_iter :: "XraySpectrum \<Rightarrow> addr \<Rightarrow> addr \<Rightarrow> addr \<Rightarrow> peak_function option \<Rightarrow> npfloat list option \<Rightarrow> npfloat \<Rightarrow> npfloat \<Rightarrow> lb_state \<Rightarrow> heap \<Rightarrow> (py_error + lb_state \<times> bool) \<times> heap" where
  "leBail_iter xpeaks peaks_int th2_axis int_axis peak_func peak_f_args baseline rwp_tol st h =
     (case get_matrix h (lb_simul_peaks st) of
        Inl e \<Rightarrow> (Inl e, h)
      | Inr simul_peaks \<Rightarrow>
     (case get_floats h (data_intensity (lb_simul_spec st)) of
        Inl e \<Rightarrow> (Inl e, h)
      | Inr simul_int \<Rightarrow>
     (case get_floats h int_axis of
        Inl e \<Rightarrow> (Inl e, h)
      | Inr obs \<Rightarrow>
     (case leBail_rescale_I simul_peaks simul_int obs of
        Inl e \<Rightarrow> (Inl e, h)
      | Inr i_scale \<Rightarrow>
     (case get_floats h peaks_int of
        Inl e \<Rightarrow> (Inl e, h)
      | Inr old_int \<Rightarrow>
     (case inplace_op fmul old_int i_scale of
        Inl e \<Rightarrow> (Inl e, h)
      | Inr new_int \<Rightarrow>
     (let h1 = store h peaks_int (Arr1 new_int)
      in case get_floats h1 (intensity xpeaks) of
        Inl e \<Rightarrow> (Inl e, h1)
      | Inr dst \<Rightarrow>
     (case inplace_op (\<lambda>d s. s) dst new_int of
        Inl e \<Rightarrow> (Inl e, h1)
      | Inr copied \<Rightarrow>
     (let h2 = store h1 (intensity xpeaks) (Arr1 copied)
      in case xrd_spec_simul xpeaks th2_axis peak_func peak_f_args baseline h2 of
        (Inl e, h3) \<Rightarrow> (Inl e, h3)
      | (Inr (simul_spec, new_peaks), h3) \<Rightarrow>
     (case get_floats h3 (data_intensity simul_spec) of
        Inl e \<Rightarrow> (Inl e, h3)
      | Inr new_simul_int \<Rightarrow>
     (case get_floats h3 int_axis of
        Inl e \<Rightarrow> (Inl e, h3)
      | Inr obs3 \<Rightarrow>
     (case Rwp_eval new_simul_int obs3 of
        Inl e \<Rightarrow> (Inl e, h3)
      | Inr rwp \<Rightarrow>
          (let delta_rwp = fabs (fdiv (fsub rwp (lb_rwp0 st)) rwp);
               stop = flt delta_rwp rwp_tol
           in (Inr (\<lparr>lb_simul_spec = simul_spec, lb_simul_peaks = new_peaks,
                     lb_rwp0 = (if stop then lb_rwp0 st else rwp), lb_rwp = Some rwp,
                     lb_iters = Suc (lb_iters st)\<rparr>, stop), h3))))))))))))))"

text \<open>\<^verbatim>\<open>for i in range(max_iter)\<close>, with \<open>n\<close> the iterations left.\<close>

primrec leBail_loop :: "nat \<Rightarrow> XraySpectrum \<Rightarrow> addr \<Rightarrow> addr \<Rightarrow> addr \<Rightarrow> peak_function option \<Rightarrow> npfloat list option \<Rightarrow> npfloat \<Rightarrow> npfloat \<Rightarrow> lb_state \<Rightarrow> heap \<Rightarrow> (py_error + lb_state) \<times> heap" where
  "leBail_loop 0 xpeaks peaks_int th2_axis int_axis peak_func peak_f_args baseline rwp_tol st h =
     (Inr st, h)"
| "leBail_loop (Suc n) xpeaks peaks_int th2_axis int_axis peak_func peak_f_args baseline rwp_tol st h =
     (case leBail_iter xpeaks peaks_int th2_axis int_axis peak_func peak_f_args baseline rwp_tol st h of
        (Inl e, h') \<Rightarrow> (Inl e, h')
      | (Inr (st', stop), h') \<Rightarrow>
          if stop then (Inr st', h')
          else leBail_loop n xpeaks peaks_int th2_axis int_axis peak_func peak_f_args baseline
                 rwp_tol st' h')"

text \<open>
  \<^verbatim>\<open>xrd_leBail_Ifit(xpeaks, exp_spec, peak_func=None, peak_f_args=[], baseline=0.0,
  rwp_tol=1e-2, max_iter=100)\<close>. \<^verbatim>\<open>range(max_iter)\<close> is empty for \<^verbatim>\<open>max_iter <= 0\<close>. The
  \<^verbatim>\<open>return\<close> statement reads \<^verbatim>\<open>rwp\<close>: Python raises \<^verbatim>\<open>UnboundLocalError\<close> when it was
  never assigned.
\<close>

definition xrd_leBail_Ifit :: "pyobj \<Rightarrow> pyobj \<Rightarrow> peak_function option \<Rightarrow> npfloat list option \<Rightarrow> npfloat \<Rightarrow> npfloat \<Rightarrow> int \<Rightarrow> heap \<Rightarrow> (py_error + XraySpectrum \<times> XraySpectrumData \<times> addr \<times> npfloat) \<times> heap" where
  "xrd_leBail_Ifit xpeaks exp_spec peak_func peak_f_args baseline rwp_tol max_iter h =
     (case xpeaks of
        PeakSet xp \<Rightarrow>
          (case exp_spec of
             Dataset ex \<Rightarrow>
               (case deepcopy_xpeaks xp h of
                  (Inl e, h1) \<Rightarrow> (Inl e, h1)
                | (Inr xc, h1) \<Rightarrow>
                    (case leBail_start xc ex peak_func peak_f_args baseline h1 of
                       (Inl e, h2) \<Rightarrow> (Inl e, h2)
                     | (Inr (peaks_int, st0), h2) \<Rightarrow>
                         (case leBail_loop (nat max_iter) xc peaks_int (data_theta2 ex)
                                 (data_intensity ex) peak_func peak_f_args baseline rwp_tol st0 h2 of
                            (Inl e, h3) \<Rightarrow> (Inl e, h3)
                          | (Inr st, h3) \<Rightarrow>
                              (case lb_rwp st of
                                 None \<Rightarrow> (Inl UnboundLocalError, h3)
                               | Some rwp \<Rightarrow>
                                   (Inr (xc, lb_simul_spec st, lb_simul_peaks st, rwp), h3)))))
           | _ \<Rightarrow> (Inl ValueError, h))
      | _ \<Rightarrow> (Inl ValueError, h))"

text \<open>
  The convergence test as the specification words it: the change of Rwp relative to the
  previous value.
\<close>

definition spec_converged :: "npfloat \<Rightarrow> npfloat \<Rightarrow> npfloat \<Rightarrow> bool" where
  "spec_converged rwp_new rwp_previous rwp_tol =
     flt (fdiv (fabs (fsub rwp_new rwp_previous)) rwp_previous) rwp_tol"

section \<open>Powder peaks\<close>

text \<open>
  \<^verbatim>\<open>powder_peaks\<close> calls functions that are not in the sources: \<^verbatim>\<open>utils.cart2abc\<close> (here
  applied to \<^verbatim>\<open>atoms.get_cell()\<close>), the Hall number that
  \<^verbatim>\<open>spglib.get_symmetry_dataset\<close> finds, the two lookups of the selection rules, which
  raise \<^verbatim>\<open>ValueError\<close> for a symmetry they do not know (\<open>None\<close> here),
  \<^verbatim>\<open>utils.hkl2d2_matgen\<close> and \<^verbatim>\<open>utils.minimum_supcell\<close>. They are parameters of the model;
  \<open>'a\<close> is the type of the \<^verbatim>\<open>Atoms\<close> objects. The sub-option \<^verbatim>\<open>o\<close> of a space group is
  \<^verbatim>\<open>'all'\<close> or a number.

  One more parameter is the integer that \<^verbatim>\<open>np.rint\<close> returns inside \<^verbatim>\<open>np.round\<close>. numpy
  applies it to the float product of the angle and the power of ten, and next to a tie the
  rounding of that product decides which of the two neighbouring integers comes out; the
  exact reals of the model do not determine it. What is proved about the peaks holds for
  every choice of that integer.
\<close>

datatype sg_option = OptAll | OptNum int

type_synonym sel_rule = "miller \<Rightarrow> bool"

type_synonym mat3 = "(real \<times> real \<times> real) \<times> (real \<times> real \<times> real) \<times> (real \<times> real \<times> real)"

record 'a collaborators =
  cart2abc :: "'a \<Rightarrow> real list list"
  hall_number :: "'a \<Rightarrow> int"
  get_sel_rule_from_hall :: "int \<Rightarrow> sel_rule option"
  get_sel_rule_from_international :: "int \<Rightarrow> sg_option \<Rightarrow> sel_rule option"
  hkl2d2_matgen :: "real list list \<Rightarrow> mat3"
  minimum_supcell :: "real \<Rightarrow> mat3 \<Rightarrow> int \<times> int \<times> int"
  np_rint :: "real \<Rightarrow> int"

text \<open>
  The sanity check and the two branches that find the lattice and the selection rule. In
  both branches the handler of the lookup's \<^verbatim>\<open>ValueError\<close> is
  \<^verbatim>\<open>raise RuntimeWarning(...)\<close>.
\<close>

definition resolve_lattice :: "'a collaborators \<Rightarrow> 'a option \<Rightarrow> real list list option \<Rightarrow> int \<Rightarrow> sg_option \<Rightarrow> py_error + real list list \<times> sel_rule" where
  "resolve_lattice env atoms latt_abc n opt =
     (case (atoms, latt_abc) of
        (Some structure, None) \<Rightarrow>
          (case get_sel_rule_from_hall env (hall_number env structure) of
             None \<Rightarrow> Inl RuntimeWarning
           | Some rule \<Rightarrow> Inr (cart2abc env structure, rule))
      | (None, Some latt) \<Rightarrow>
          if length latt = 2 \<and> list_all (\<lambda>r. length r = 3) latt
          then (case get_sel_rule_from_international env n opt of
                  None \<Rightarrow> Inl RuntimeWarning
                | Some rule \<Rightarrow> Inr (latt, rule))
          else Inl ValueError
      | _ \<Rightarrow> Inl ValueError)"

text \<open>
  \<^verbatim>\<open>np.array(np.meshgrid(hrange, krange, lrange)).reshape((3, -1))\<close>: with the default
  indexing of \<^verbatim>\<open>meshgrid\<close> the columns run over \<open>k\<close>, then \<open>h\<close>, then \<open>l\<close>, the last one
  fastest. \<^verbatim>\<open>range(-b, b+1)\<close> is empty for a negative \<open>b\<close>.
\<close>

definition hkl_mesh :: "int \<times> int \<times> int \<Rightarrow> miller list" where
  "hkl_mesh bounds =
     (case bounds of (bh, bk, bl) \<Rightarrow>
        concat (map (\<lambda>k. concat (map (\<lambda>h. map (\<lambda>l. (h, k, l)) [- bl..bl]) [- bh..bh]))
                  [- bk..bk]))"

text \<open>
  \<^verbatim>\<open>np.sum(hkl * np.tensordot(hkl2d2, hkl, axes=((1,), (0,))), axis=0)\<close> for one column
  \<open>(h, k, l)\<close> of the grid.
\<close>

definition quad_form :: "mat3 \<Rightarrow> miller \<Rightarrow> real" where
  "quad_form m x =
     (case m of ((m00, m01, m02), (m10, m11, m12), (m20, m21, m22)) \<Rightarrow>
      case x of (h, k, l) \<Rightarrow>
        of_int h * (m00 * of_int h + m01 * of_int k + m02 * of_int l) +
        of_int k * (m10 * of_int h + m11 * of_int k + m12 * of_int l) +
        of_int l * (m20 * of_int h + m21 * of_int k + m22 * of_int l))"

text \<open>
  \<^verbatim>\<open>np.round(x, decimals)\<close> scales by a power of ten (it multiplies for \<open>decimals >= 0\<close>
  and divides otherwise), rounds to an integer with \<^verbatim>\<open>np.rint\<close>, here \<open>to_int\<close>, and scales
  back. Every value it returns is a multiple of \<open>round_step decimals\<close>.
\<close>

definition np_round :: "(real \<Rightarrow> int) \<Rightarrow> real \<Rightarrow> int \<Rightarrow> real" where
  "np_round to_int x decimals =
     (if 0 \<le> decimals then of_int (to_int (x * 10 ^ nat decimals)) / 10 ^ nat decimals
      else of_int (to_int (x / 10 ^ nat (- decimals))) * 10 ^ nat (- decimals))"

definition round_step :: "int \<Rightarrow> real" where
  "round_step decimals = (if 0 \<le> decimals then 1 / 10 ^ nat decimals else 10 ^ nat (- decimals))"

text \<open>
  \<^verbatim>\<open>np.rint\<close> of an exact value: the nearest integer, the even one at a tie. The examples
  use it, on values far from a tie.
\<close>

definition rint :: "real \<Rightarrow> int" where
  "rint x =
     (let f = \<lfloor>x\<rfloor>; r = x - of_int f
      in if r < 1 / 2 then f else if 1 / 2 < r then f + 1 else if even f then f else f + 1)"

text \<open>
  \<^verbatim>\<open>np.unique(ar, return_index=True, return_inverse=True)\<close>: the sorted unique values, for
  each of them the index of its first occurrence in \<open>ar\<close>, and for each element of \<open>ar\<close> the
  index of its value among the unique values.
\<close>

definition first_index :: "'a list \<Rightarrow> 'a \<Rightarrow> nat" where
  "first_index xs v = length (takeWhile (\<lambda>x. x \<noteq> v) xs)"

definition np_unique :: "real list \<Rightarrow> real list \<times> nat list \<times> nat list" where
  "np_unique ar = (let u = sort (remdups ar) in (u, map (first_index ar) u, map (first_index u) ar))"

text \<open>
  The merge of the reflections that share a rounded angle: \<^verbatim>\<open>np.unique\<close> of the rounded
  \<^verbatim>\<open>2.0*theta_grid*180.0/np.pi\<close>, then \<^verbatim>\<open>hkl_sorted\<close>, \<^verbatim>\<open>hkl_unique\<close> and \<^verbatim>\<open>invd\<close>. The
  result is the angles, the groups of reflections, one reflection for each angle and its
  inverse distance.
\<close>

definition merge_peaks :: "(real \<Rightarrow> int) \<Rightarrow> int \<Rightarrow> miller list \<Rightarrow> real list \<Rightarrow> real list \<Rightarrow> real list \<times> miller list list \<times> miller list \<times> real list" where
  "merge_peaks to_int digits hkl_grid inv_d_grid theta_grid =
     (let unique_sorting =
            np_unique (map (\<lambda>t. np_round to_int (2 * t * 180 / pi) digits) theta_grid);
          peak_n = length (fst unique_sorting);
          hkl_sorted =
            map (\<lambda>i. map (nth hkl_grid)
                       (filter (\<lambda>j. snd (snd unique_sorting) ! j = i)
                          [0..<length (snd (snd unique_sorting))]))
              [0..<peak_n];
          unique_hkl = map (nth hkl_grid) (fst (snd unique_sorting));
          inv_d = map (nth inv_d_grid) (fst (snd unique_sorting))
      in (fst unique_sorting, hkl_sorted, unique_hkl, inv_d))"

text \<open>
  The computation of the peaks, from \<^verbatim>\<open>inv_d_max = 2.0/self.lambdax\<close> on. The wavelength
  and the lattice are finite floats, modelled as reals; dividing by a zero wavelength
  raises \<^verbatim>\<open>ZeroDivisionError\<close>. Where the quadratic form is negative \<^verbatim>\<open>np.sqrt\<close> is NaN,
  which fails both comparisons of the filter; \<open>sqrt\<close> is negative there and fails the
  second: the same reflections are dropped. \<^verbatim>\<open>np.apply_along_axis\<close> raises an error when
  no reflection is left to apply the selection rule to.
\<close>

definition peak_arrays :: "'a collaborators \<Rightarrow> real \<Rightarrow> int \<Rightarrow> real list list \<Rightarrow> sel_rule \<Rightarrow> py_error + real list \<times> miller list list \<times> miller list \<times> real list" where
  "peak_arrays env wavelength digits latt_abc rule =
     (if wavelength = 0 then Inl ZeroDivisionError
      else
        (let inv_d_max = 2 / wavelength;
             hkl2d2 = hkl2d2_matgen env latt_abc;
             hkl_bounds = minimum_supcell env inv_d_max hkl2d2;
             hkl_grid = hkl_mesh hkl_bounds;
             inv_d_grid = map (\<lambda>x. sqrt (quad_form hkl2d2 x)) hkl_grid;
             valid_i = filter (\<lambda>i. inv_d_grid ! i < inv_d_max \<and> 0 < inv_d_grid ! i)
                         [0..<length inv_d_grid];
             hkl_grid = map (nth hkl_grid) valid_i;
             inv_d_grid = map (nth inv_d_grid) valid_i
         in if hkl_grid = [] then Inl ValueError
            else
              (let selected_i = filter (\<lambda>i. rule (hkl_grid ! i)) [0..<length hkl_grid];
                   hkl_grid = map (nth hkl_grid) selected_i;
                   inv_d_grid = map (nth inv_d_grid) selected_i;
                   theta_grid = map (\<lambda>d. arcsin (d / inv_d_max)) inv_d_grid
               in Inr (merge_peaks (np_rint env) digits hkl_grid inv_d_grid theta_grid))))"

text \<open>
  \<^verbatim>\<open>powder_peaks(self, atoms=None, latt_abc=None, n=1, o='all')\<close>. The five arrays of the
  peak set are new; the intensities are \<^verbatim>\<open>np.zeros(peak_n)\<close>.
\<close>

definition powder_peaks :: "'a collaborators \<Rightarrow> XRDCalculator \<Rightarrow> 'a option \<Rightarrow> real list list option \<Rightarrow> int \<Rightarrow> sg_option \<Rightarrow> heap \<Rightarrow> (py_error + XraySpectrum) \<times> heap" where
  "powder_peaks env self atoms latt_abc n opt h =
     (case resolve_lattice env atoms latt_abc n opt of
        Inl e \<Rightarrow> (Inl e, h)
      | Inr (latt, rule) \<Rightarrow>
          (case peak_arrays env (self_lambdax self) (self_theta2_digits self) latt rule of
             Inl e \<Rightarrow> (Inl e, h)
           | Inr (angles, hkl_sorted, unique_hkl, inv_d) \<Rightarrow>
               (let (a_theta2, h1) = alloc h (Arr1 (map Fin angles));
                    (a_hkl, h2) = alloc h1 (HklGroups hkl_sorted);
                    (a_unique, h3) = alloc h2 (HklArr unique_hkl);
                    (a_invd, h4) = alloc h3 (Arr1 (map Fin inv_d));
                    (a_int, h5) = alloc h4 (Arr1 (replicate (length angles) (Fin 0)))
                in (Inr \<lparr>theta2 = a_theta2, hkl = a_hkl, hkl_unique = a_unique,
                         invd = a_invd, intensity = a_int, lambdax = self_lambdax self\<rparr>,
                    h5))))"

section \<open>Example inputs\<close>

text \<open>
  The two functions of \<^verbatim>\<open>test_func_interface\<close>: \<^verbatim>\<open>bad_func(x)\<close> returns \<^verbatim>\<open>x\<close>, and
  \<^verbatim>\<open>good_func(x, w, a, b, c=0.2)\<close> returns \<^verbatim>\<open>x*w*a*b*c\<close>.
\<close>

definition bad_func :: peak_function where
  "bad_func = \<lparr>fn_args = [''x''], fn_defaults = None, fn_body = (\<lambda>x x0 ps. x)\<rparr>"

definition good_func :: peak_function where
  "good_func =
     \<lparr>fn_args = [''x'', ''w'', ''a'', ''b'', ''c''], fn_defaults = Some [Fin (2 / 10)],
      fn_body = (\<lambda>x w ps. fmul (fmul (fmul (fmul x w) (ps ! 0)) (ps ! 1)) (ps ! 2))\<rparr>"

text \<open>A Lorentzian peak of unit width, \<^verbatim>\<open>lambda x, x0: 1.0/(1.0 + (x-x0)**2.0)\<close>.\<close>

definition lorentz_peak :: peak_function where
  "lorentz_peak =
     \<lparr>fn_args = [''x'', ''x0''], fn_defaults = None,
      fn_body = (\<lambda>x x0 ps. fdiv (Fin 1) (fadd (Fin 1) (fpow2 (fsub x x0))))\<rparr>"

text \<open>The object that \<^verbatim>\<open>XRDCalculator()\<close> builds.\<close>

definition default_calculator :: XRDCalculator where
  "default_calculator =
     \<lparr>self_lambdax = 154056 / 100000, self_theta2_digits = 6, self_baseline = Fin 0,
      self_peak_func = Some gauss_peak_default, self_peak_f_args = Some [Fin (1 / 10)]\<rparr>"

text \<open>
  A store with a peak set of one peak at 5 degrees, of intensity \<open>i\<close>, and an experimental
  dataset of one point: intensity 8 at 5 degrees.
\<close>

definition one_peak_heap :: "real \<Rightarrow> heap" where
  "one_peak_heap i =
     [Arr1 [Fin 5], HklGroups [[(1, 0, 0)]], HklArr [(1, 0, 0)], Arr1 [Fin (1 / 2)],
      Arr1 [Fin i], Arr1 [Fin 5], Arr1 [Fin 8]]"

definition one_peak :: XraySpectrum where
  "one_peak = \<lparr>theta2 = 0, hkl = 1, hkl_unique = 2, invd = 3, intensity = 4, lambdax = 2\<rparr>"

definition one_point :: XraySpectrumData where
  "one_point = \<lparr>data_theta2 = 5, data_intensity = 6\<rparr>"

text \<open>
  The deep copy of that peak set, and the store and the variables of \<^verbatim>\<open>xrd_leBail_Ifit\<close>
  when the loop starts, for the caller's intensity 4, the Lorentzian peak and no baseline:
  after the copy come \<^verbatim>\<open>peaks_int\<close>, the contribution matrix and the simulated spectrum.
\<close>

definition one_peak_copy :: XraySpectrum where
  "one_peak_copy =
     \<lparr>theta2 = 7, hkl = 8, hkl_unique = 9, invd = 10, intensity = 11, lambdax = 2\<rparr>"

definition started_heap :: heap where
  "started_heap =
     one_peak_heap 4 @
     [Arr1 [Fin 5], HklGroups [[(1, 0, 0)]], HklArr [(1, 0, 0)], Arr1 [Fin (1 / 2)],
      Arr1 [Fin 4], Arr1 [Fin 2], Arr2 1 [[Fin 4]], Arr1 [Fin 4]]"

definition started_state :: lb_state where
  "started_state =
     \<lparr>lb_simul_spec = \<lparr>data_theta2 = 5, data_intensity = 14\<rparr>, lb_simul_peaks = 13,
      lb_rwp0 = Fin (1 / 2), lb_rwp = None, lb_iters = 0\<rparr>"

text \<open>
  Collaborators for a cubic lattice of side 2 Angstrom. The quadratic form is
  \<open>(h^2 + k^2 + l^2)/4\<close>, the search is bounded to \<open>|h|, |k| <= 1\<close> and \<open>l = 0\<close>, and the
  symmetry tables know one entry, which allows every reflection.
\<close>

definition cubic_env :: "unit collaborators" where
  "cubic_env =
     \<lparr>cart2abc = (\<lambda>_. [[2, 2, 2], [pi / 2, pi / 2, pi / 2]]),
      hall_number = (\<lambda>_. 0),
      get_sel_rule_from_hall = (\<lambda>h. if h = 1 then Some (\<lambda>_. True) else None),
      get_sel_rule_from_international = (\<lambda>n opt. if n = 1 then Some (\<lambda>_. True) else None),
      hkl2d2_matgen = (\<lambda>_. ((1 / 4, 0, 0), (0, 1 / 4, 0), (0, 0, 1 / 4))),
      minimum_supcell = (\<lambda>_ _. (1, 1, 0)),
      np_rint = rint\<rparr>"

definition cubic_latt :: "real list list" where
  "cubic_latt = [[2, 2, 2], [pi / 2, pi / 2, pi / 2]]"

text \<open>
  A calculator for the wavelength 2 Angstrom, and the peak set that \<^verbatim>\<open>powder_peaks\<close> builds
  with it for the cubic lattice in an empty store: two peaks, at 60 and 90 degrees, of four
  reflections each.
\<close>

definition cubic_calculator :: XRDCalculator where
  "cubic_calculator = default_calculator\<lparr>self_lambdax := 2\<rparr>"

definition cubic_peak_set :: XraySpectrum where
  "cubic_peak_set =
     \<lparr>theta2 = 0, hkl = 1, hkl_unique = 2, invd = 3, intensity = 4, lambdax = 2\<rparr>"

definition cubic_peak_heap :: heap where
  "cubic_peak_heap =
     [Arr1 [Fin 60, Fin 90],
      HklGroups [[(0, - 1, 0), (- 1, 0, 0), (1, 0, 0), (0, 1, 0)],
                 [(- 1, - 1, 0), (1, - 1, 0), (- 1, 1, 0), (1, 1, 0)]],
      HklArr [(0, - 1, 0), (- 1, - 1, 0)],
      Arr1 [Fin (1 / 2), Fin (sqrt (1 / 2))],
      Arr1 [Fin 0, Fin 0]]"

text \<open>
  The same calculator rounding to hundreds of degrees (\<^verbatim>\<open>xr.theta2_digits = -2\<close>): the
  angles 60 and 90 both round to 100, and the eight reflections are one peak.
\<close>

definition coarse_calculator :: XRDCalculator where
  "coarse_calculator = cubic_calculator\<lparr>self_theta2_digits := - 2\<rparr>"

definition coarse_peak_set :: XraySpectrum where
  "coarse_peak_set =
     \<lparr>theta2 = 0, hkl = 1, hkl_unique = 2, invd = 3, intensity = 4, lambdax = 2\<rparr>"

definition coarse_peak_heap :: heap where
  "coarse_peak_heap =
     [Arr1 [Fin 100],
      HklGroups [[(- 1, - 1, 0), (0, - 1, 0), (1, - 1, 0), (- 1, 0, 0),
                  (1, 0, 0), (- 1, 1, 0), (0, 1, 0), (1, 1, 0)]],
      HklArr [(- 1, - 1, 0)],
      Arr1 [Fin (sqrt (1 / 2))],
      Arr1 [Fin 0]]"

text \<open>
  A refinement whose Rwp settles at a value above zero: the caller's intensity is 7 and the
  baseline, 9, is above the observed intensity 8. The store after the deep copy, and the
  store and the variables when the loop starts.
\<close>

definition one_peak_copied_heap :: "real \<Rightarrow> heap" where
  "one_peak_copied_heap i =
     one_peak_heap i @
     [Arr1 [Fin 5], HklGroups [[(1, 0, 0)]], HklArr [(1, 0, 0)], Arr1 [Fin (1 / 2)],
      Arr1 [Fin i]]"

definition damped_heap :: heap where
  "damped_heap = one_peak_copied_heap 7 @ [Arr1 [Fin 2], Arr2 1 [[Fin 7]], Arr1 [Fin 16]]"

definition damped_state :: lb_state where
  "damped_state =
     \<lparr>lb_simul_spec = \<lparr>data_theta2 = 5, data_intensity = 14\<rparr>, lb_simul_peaks = 13,
      lb_rwp0 = Fin 1, lb_rwp = None, lb_iters = 0\<rparr>"

section \<open>Properties\<close>

subsection \<open>Arrays\<close>

lemma bcast2_same: "length xs = length ys \<Longrightarrow> bcast2 f xs ys = Inr (map2 f xs ys)"
  by (simp add: bcast2_def broadcastable_def bc_map2_def)

subsection \<open>The rescale factors\<close>

text \<open>
  What the source computes: for a contribution matrix of \<open>n\<close> rows and \<open>nc\<close> columns and
  spectra of length \<open>n\<close>, the factor of peak \<open>j\<close> is the sum over the axis points of
  \<open>obs[i] * contribution[i][j] / calc[i]\<close>, divided by the column sum of peak \<open>j\<close> when that
  sum is greater than zero and by \<open>+infinity\<close> otherwise. The division by \<open>calc[i]\<close> is the
  plain division of floats.
\<close>

lemma leBail_rescale_I_formula:
  assumes "list_all (\<lambda>r. length r = nc) rows"
    and "length calc = length rows"
    and "length obs = length rows"
    and "j < nc"
  shows "\<exists>fs. leBail_rescale_I (nc, rows) calc obs = Inr fs \<and> length fs = nc \<and>
     fs ! j = fdiv (fsum (map (\<lambda>i. fdiv (fmul (obs ! i) (rows ! i ! j)) (calc ! i)) [0..<length rows]))
                   (let s = fsum (map (\<lambda>i. rows ! i ! j) [0..<length rows])
                    in if fgt s (Fin 0) then s else PInf)"
proof -
  let ?n = "length rows"
  let ?weighted = "map2 (\<lambda>c r. map (fmul c) r) obs rows"
  let ?quot = "map2 (\<lambda>r c. map (\<lambda>v. fdiv v c) r) ?weighted calc"
  have rowlen: "\<And>i. i < ?n \<Longrightarrow> length (rows ! i) = nc"
    using assms(1) by (simp add: list_all_length)
  have q: "\<And>i. i < ?n \<Longrightarrow> ?quot ! i ! j = fdiv (fmul (obs ! i) (rows ! i ! j)) (calc ! i)"
    using assms rowlen by simp
  have cols: "map (\<lambda>r. r ! j) ?quot =
      map (\<lambda>i. fdiv (fmul (obs ! i) (rows ! i ! j)) (calc ! i)) [0..<?n]"
    by (rule nth_equalityI) (use assms q in simp_all)
  have cols0: "map (\<lambda>r. r ! j) rows = map (\<lambda>i. rows ! i ! j) [0..<?n]"
    by (rule nth_equalityI) simp_all
  let ?fs = "map2 fdiv (sum_axis0 (nc, ?quot))
      (map (\<lambda>s. if fgt s (Fin 0) then s else PInf) (sum_axis0 (nc, rows)))"
  have res: "leBail_rescale_I (nc, rows) calc obs = Inr ?fs"
    using assms by (simp add: leBail_rescale_I_def col_op_def op_col_def bcast2_same sum_axis0_def)
  have s1: "sum_axis0 (nc, ?quot) ! j = fsum (map (\<lambda>r. r ! j) ?quot)"
    using assms(4) by (simp add: sum_axis0_def)
  have s2: "sum_axis0 (nc, rows) ! j = fsum (map (\<lambda>r. r ! j) rows)"
    using assms(4) by (simp add: sum_axis0_def)
  have len: "length (sum_axis0 (nc, ?quot)) = nc" "length (sum_axis0 (nc, rows)) = nc"
    by (simp_all add: sum_axis0_def)
  have "?fs ! j = fdiv (sum_axis0 (nc, ?quot) ! j)
      (if fgt (sum_axis0 (nc, rows) ! j) (Fin 0) then sum_axis0 (nc, rows) ! j else PInf)"
    using assms(4) len by simp
  then have "?fs ! j =
      fdiv (fsum (map (\<lambda>i. fdiv (fmul (obs ! i) (rows ! i ! j)) (calc ! i)) [0..<?n]))
           (let s = fsum (map (\<lambda>i. rows ! i ! j) [0..<?n]) in if fgt s (Fin 0) then s else PInf)"
    by (simp only: s1 s2 cols cols0 Let_def)
  moreover have "length ?fs = nc"
    using len by simp
  ultimately show ?thesis
    using res by blast
qed

lemma leBail_rescale_I_formula_example:
  "\<exists>fs. leBail_rescale_I (1, [[Fin 2], [Fin 2]]) [Fin 2, Fin 4] [Fin 4, Fin 4] = Inr fs \<and>
     length fs = 1 \<and> fs ! 0 = Fin (3 / 2)"
  using leBail_rescale_I_formula [of 1 "[[Fin 2], [Fin 2]]" "[Fin 2, Fin 4]" "[Fin 4, Fin 4]" 0]
  by (simp add: fsum_def fgt_def upt_rec)

subsection \<open>The store across a refinement\<close>

text \<open>
  A store \<open>h\<close> is unchanged in \<open>h'\<close> when \<open>take (length h) h' = h\<close>: every array of \<open>h\<close> is
  at its address in \<open>h'\<close>, with its contents.
\<close>

lemma keep_length: "take (length h0) h = h0 \<Longrightarrow> length h0 \<le> length h"
proof -
  assume a: "take (length h0) h = h0"
  have "length (take (length h0) h) = min (length h) (length h0)" by simp
  with a show ?thesis by simp
qed

lemma keep_append: "take (length h0) h = h0 \<Longrightarrow> take (length h0) (h @ xs) = h0"
  using keep_length[of h0 h] by simp

lemma keep_store: "take (length h0) h = h0 \<Longrightarrow> length h0 \<le> a \<Longrightarrow> take (length h0) (store h a v) = h0"
  by (simp add: store_def)

lemma xrd_spec_simul_snd:
  "take (length h0) h = h0 \<Longrightarrow> take (length h0) (snd (xrd_spec_simul xp ax pf args b h)) = h0"
  apply (simp add: xrd_spec_simul_def alloc_def split: option.split ndarray.split sum.split prod.split)
  apply (simp add: keep_length)
  done


lemma xrd_spec_simul_keep:
  "xrd_spec_simul xp ax pf args b h = (r, h') \<Longrightarrow> take (length h0) h = h0 \<Longrightarrow> take (length h0) h' = h0"
  using xrd_spec_simul_snd[of h0 h xp ax pf args b] by simp

lemma xrd_spec_simul_keep_app:
  assumes "xrd_spec_simul xp ax pf args b (h @ xs) = (r, h')" and "take (length h0) h = h0"
  shows "take (length h0) h' = h0"
proof -
  have "take (length h0) (h @ xs) = h0" using assms(2) by (rule keep_append)
  with assms(1) show ?thesis by (rule xrd_spec_simul_keep)
qed

lemma leBail_start_snd:
  "take (length h0) h = h0 \<Longrightarrow> take (length h0) (snd (leBail_start xc ex pf args b h)) = h0"
  apply (simp add: leBail_start_def Let_def alloc_def split: sum.split prod.split)
  apply (intro allI impI conjI)
  apply (erule xrd_spec_simul_keep_app, assumption)+
  done

lemma leBail_start_keep:
  "leBail_start xc ex pf args b h = (r, h') \<Longrightarrow> take (length h0) h = h0 \<Longrightarrow> take (length h0) h' = h0"
  using leBail_start_snd[of h0 h xc ex pf args b] by simp

lemma leBail_start_result:
  "fst (leBail_start xc ex pf args b h) = Inr (p, st) \<Longrightarrow> p = length h \<and> lb_rwp st = None \<and> lb_iters st = 0"
  apply (simp add: leBail_start_def Let_def alloc_def split: sum.split_asm prod.split_asm if_split_asm)
  apply auto
  done


lemma leBail_start_rwp0:
  "fst (leBail_start xc ex pf args b h) = Inr (p, st) \<Longrightarrow>
   \<exists>sim obs.
     get_floats (snd (leBail_start xc ex pf args b h)) (data_intensity (lb_simul_spec st)) = Inr sim \<and>
     get_floats (snd (leBail_start xc ex pf args b h)) (data_intensity ex) = Inr obs \<and>
     Rwp_eval sim obs = Inr (lb_rwp0 st)"
  apply (simp add: leBail_start_def Let_def alloc_def split: sum.split_asm prod.split_asm if_split_asm)
  apply auto
  done

lemma leBail_iter_snd:
  "take (length h0) h = h0 \<Longrightarrow> length h0 \<le> pint \<Longrightarrow> length h0 \<le> intensity xc \<Longrightarrow>
   take (length h0) (snd (leBail_iter xc pint ax ia pf args b tol st h)) = h0"
  apply (simp add: leBail_iter_def Let_def keep_store split: sum.split prod.split)
  apply (intro allI impI conjI)
  apply (erule xrd_spec_simul_keep, simp add: keep_store)+
  done

lemma leBail_iter_keep:
  "leBail_iter xc pint ax ia pf args b tol st h = (r, h') \<Longrightarrow> take (length h0) h = h0 \<Longrightarrow>
   length h0 \<le> pint \<Longrightarrow> length h0 \<le> intensity xc \<Longrightarrow> take (length h0) h' = h0"
  using leBail_iter_snd[of h0 h pint xc ax ia pf args b tol st] by simp

lemma leBail_loop_keep:
  "leBail_loop n xc pint ax ia pf args b tol st h = (r, h') \<Longrightarrow> take (length h0) h = h0 \<Longrightarrow>
   length h0 \<le> pint \<Longrightarrow> length h0 \<le> intensity xc \<Longrightarrow> take (length h0) h' = h0"
proof (induction n arbitrary: st h)
  case 0
  then show ?case by simp
next
  case (Suc n)
  obtain r1 h1 where it: "leBail_iter xc pint ax ia pf args b tol st h = (r1, h1)"
    by (cases "leBail_iter xc pint ax ia pf args b tol st h")
  have k1: "take (length h0) h1 = h0"
    using it Suc.prems(2-4) by (rule leBail_iter_keep)
  show ?case
  proof (cases r1)
    case (Inl e)
    then show ?thesis using Suc.prems(1) it k1 by simp
  next
    case (Inr p)
    obtain st1 stop where p: "p = (st1, stop)" by (cases p)
    show ?thesis
    proof (cases stop)
      case True
      then show ?thesis using Suc.prems(1) it k1 Inr p by simp
    next
      case False
      then have "leBail_loop n xc pint ax ia pf args b tol st1 h1 = (r, h')"
        using Suc.prems(1) it Inr p by simp
      then show ?thesis using k1 Suc.prems(3,4) by (rule Suc.IH)
    qed
  qed
qed


lemma deepcopy_arrays_fresh:
  "deepcopy_arrays as memo h = (r, h') \<Longrightarrow> take (length h0) h = h0 \<Longrightarrow>
   list_all (\<lambda>p. length h0 \<le> snd p) memo \<Longrightarrow>
   take (length h0) h' = h0 \<and>
   (\<forall>bs. r = Inr bs \<longrightarrow> length bs = length as \<and> list_all (\<lambda>a'. length h0 \<le> a') bs)"
proof (induction as arbitrary: memo h r h')
  case Nil
  then show ?case by auto
next
  case (Cons a as)
  show ?case
  proof (cases "map_of memo a")
    case (Some a')
    obtain r1 h1 where r1: "deepcopy_arrays as memo h = (r1, h1)"
      by (cases "deepcopy_arrays as memo h")
    from Cons.IH[OF r1 Cons.prems(2,3)]
    have ih: "take (length h0) h1 = h0"
      "\<And>bs. r1 = Inr bs \<Longrightarrow> length bs = length as \<and> list_all (\<lambda>a'. length h0 \<le> a') bs"
      by auto
    have "(a, a') \<in> set memo"
      using Some by (rule map_of_SomeD)
    then have fresh: "length h0 \<le> a'"
      using Cons.prems(3) by (auto simp: list_all_iff)
    show ?thesis
      using Cons.prems(1) Some r1 ih fresh by (cases r1) auto
  next
    case None
    show ?thesis
    proof (cases "lookup h a")
      case N: None
      then show ?thesis using Cons.prems None by auto
    next
      case (Some v)
      obtain r1 h1 where r1: "deepcopy_arrays as ((a, length h) # memo) (h @ [v]) = (r1, h1)"
        by (cases "deepcopy_arrays as ((a, length h) # memo) (h @ [v])")
      have e: "take (length h0) (h @ [v]) = h0"
        using Cons.prems(2) by (rule keep_append)
      have m: "list_all (\<lambda>p. length h0 \<le> snd p) ((a, length h) # memo)"
        using Cons.prems(2,3) keep_length[of h0 h] by simp
      from Cons.IH[OF r1 e m]
      have ih: "take (length h0) h1 = h0"
        "\<And>bs. r1 = Inr bs \<Longrightarrow> length bs = length as \<and> list_all (\<lambda>a'. length h0 \<le> a') bs"
        by auto
      show ?thesis
        using Cons.prems(1,2) None Some r1 ih keep_length[of h0 h]
        by (cases r1) (auto simp: alloc_def)
    qed
  qed
qed

lemma deepcopy_xpeaks_fresh:
  assumes "deepcopy_xpeaks x h = (r, h')"
  shows "take (length h) h' = h \<and>
    (\<forall>xc. r = Inr xc \<longrightarrow> length h \<le> theta2 xc \<and> length h \<le> hkl xc \<and> length h \<le> hkl_unique xc
      \<and> length h \<le> invd xc \<and> length h \<le> intensity xc \<and> lambdax xc = lambdax x)"
proof -
  obtain r1 h1 where r1: "deepcopy_arrays [theta2 x, hkl x, hkl_unique x, invd x, intensity x] [] h = (r1, h1)"
    by (cases "deepcopy_arrays [theta2 x, hkl x, hkl_unique x, invd x, intensity x] [] h")
  have "take (length h) h = h" "list_all (\<lambda>p. length h \<le> snd p) []"
    by simp_all
  from deepcopy_arrays_fresh[OF r1 this]
  have k: "take (length h) h1 = h"
    and f: "\<And>bs. r1 = Inr bs \<Longrightarrow> list_all (\<lambda>a'. length h \<le> a') bs"
    by auto
  show ?thesis
  proof (cases r1)
    case (Inl e)
    then show ?thesis using assms r1 k by (auto simp add: deepcopy_xpeaks_def simp del: deepcopy_arrays.simps)
  next
    case (Inr bs)
    from f[OF Inr] have "list_all (\<lambda>a'. length h \<le> a') bs" .
    then show ?thesis using assms r1 k Inr
      by (auto simp: deepcopy_xpeaks_def simp del: deepcopy_arrays.simps split: list.splits)
  qed
qed

text \<open>
  Claim C7: after \<^verbatim>\<open>xrd_leBail_Ifit\<close>, whether it returns or raises, every array that was
  in the store before the call is unchanged: the arrays of the caller's peak set, its
  intensities among them. The peak set returned is the deep copy: each of its arrays is a
  new one, allocated during the call, and its wavelength is the caller's.
\<close>

theorem xrd_leBail_Ifit_frame:
  assumes "xrd_leBail_Ifit xpeaks exp_spec pf args b tol max_iter h = (res, h')"
  shows "length h \<le> length h' \<and> take (length h) h' = h \<and>
    (\<forall>xp xc sd sp rwp. xpeaks = PeakSet xp \<longrightarrow> res = Inr (xc, sd, sp, rwp) \<longrightarrow>
       length h \<le> theta2 xc \<and> length h \<le> hkl xc \<and> length h \<le> hkl_unique xc \<and>
       length h \<le> invd xc \<and> length h \<le> intensity xc \<and> lambdax xc = lambdax xp)"
proof -
  have main: "take (length h) h' = h \<and>
    (\<forall>xp xc sd sp rwp. xpeaks = PeakSet xp \<longrightarrow> res = Inr (xc, sd, sp, rwp) \<longrightarrow>
       length h \<le> theta2 xc \<and> length h \<le> hkl xc \<and> length h \<le> hkl_unique xc \<and>
       length h \<le> invd xc \<and> length h \<le> intensity xc \<and> lambdax xc = lambdax xp)"
  proof (cases xpeaks)
    case (PeakSet xp)
    show ?thesis
    proof (cases exp_spec)
      case (Dataset ex)
      obtain r1 h1 where dc: "deepcopy_xpeaks xp h = (r1, h1)"
        by (cases "deepcopy_xpeaks xp h")
      from deepcopy_xpeaks_fresh[OF dc]
      have k1: "take (length h) h1 = h"
        and f1: "\<And>xc. r1 = Inr xc \<Longrightarrow> length h \<le> theta2 xc \<and> length h \<le> hkl xc \<and>
          length h \<le> hkl_unique xc \<and> length h \<le> invd xc \<and> length h \<le> intensity xc \<and>
          lambdax xc = lambdax xp"
        by auto
      show ?thesis
      proof (cases r1)
        case (Inl e)
        then show ?thesis using assms PeakSet Dataset dc k1 by (auto simp add: xrd_leBail_Ifit_def)
      next
        case xc: (Inr xc)
        obtain r2 h2 where st: "leBail_start xc ex pf args b h1 = (r2, h2)"
          by (cases "leBail_start xc ex pf args b h1")
        have k2: "take (length h) h2 = h"
          using st k1 by (rule leBail_start_keep)
        show ?thesis
        proof (cases r2)
          case (Inl e)
          then show ?thesis using assms PeakSet Dataset dc xc st k2 by (auto simp add: xrd_leBail_Ifit_def)
        next
          case (Inr p)
          obtain pint st0 where p: "p = (pint, st0)" by (cases p)
          have "fst (leBail_start xc ex pf args b h1) = Inr (pint, st0)"
            using st Inr p by simp
          then have "pint = length h1" by (simp add: leBail_start_result)
          then have pf: "length h \<le> pint" using keep_length[OF k1] by simp
          obtain r3 h3 where lp: "leBail_loop (nat max_iter) xc pint (data_theta2 ex) (data_intensity ex) pf args b tol st0 h2 = (r3, h3)"
            by (cases "leBail_loop (nat max_iter) xc pint (data_theta2 ex) (data_intensity ex) pf args b tol st0 h2")
          have k3: "take (length h) h3 = h"
            using lp k2 pf f1[OF xc] by (auto intro: leBail_loop_keep)
          show ?thesis using assms PeakSet Dataset dc xc st Inr p lp k3 f1[OF xc]
            by (cases r3) (auto simp: xrd_leBail_Ifit_def split: option.splits)
        qed
      qed
    next
      case (PeakSet y)
      have "xrd_leBail_Ifit (PeakSet xp) (PeakSet y) pf args b tol max_iter h = (Inl ValueError, h)"
        by (simp add: xrd_leBail_Ifit_def)
      with assms \<open>xpeaks = PeakSet xp\<close> PeakSet show ?thesis by auto
    next
      case OtherObj
      have "xrd_leBail_Ifit (PeakSet xp) OtherObj pf args b tol max_iter h = (Inl ValueError, h)"
        by (simp add: xrd_leBail_Ifit_def)
      with assms \<open>xpeaks = PeakSet xp\<close> OtherObj show ?thesis by auto
    qed
  next
    case (Dataset x)
    have "xrd_leBail_Ifit (Dataset x) exp_spec pf args b tol max_iter h = (Inl ValueError, h)"
      by (simp add: xrd_leBail_Ifit_def)
    with assms Dataset show ?thesis by auto
  next
    case OtherObj
    have "xrd_leBail_Ifit OtherObj exp_spec pf args b tol max_iter h = (Inl ValueError, h)"
      by (simp add: xrd_leBail_Ifit_def)
    with assms OtherObj show ?thesis by auto
  qed
  from main have "take (length h) h' = h"
    by (rule conjunct1)
  then have "length h \<le> length h'"
    by (rule keep_length)
  then show ?thesis
    using main by (rule conjI)
qed

subsection \<open>Evaluation on concrete inputs\<close>

lemmas store_evals = alloc_def lookup_def store_def get_floats_def get_matrix_def nth_append

lemmas array_evals = bcast2_def bc_map2_def broadcastable_def bc_len_def inplace_op_def
  col_op_def op_col_def row_op_def sum_axis0_def sum_axis1_def fsum_def amax_def fsub_def
  fpow2_def fgt_def

lemmas leBail_evals = xrd_leBail_Ifit_def deepcopy_xpeaks_def leBail_start_def leBail_iter_def
  xrd_spec_simul_def simul_peak_func_def simul_arrays_def call_peak_func_def Rwp_eval_def
  leBail_rescale_I_def

lemmas example_evals = lorentz_peak_def one_peak_heap_def one_peak_def one_point_def
  one_peak_copy_def started_heap_def started_state_def

lemma sqrt_of_square: "0 \<le> y \<Longrightarrow> x = y * y \<Longrightarrow> sqrt x = y"
  by (simp add: real_sqrt_mult)

lemma sqrt_values: "sqrt (1 / 4) = 1 / 2" "sqrt (9 / 16) = 3 / 4" "sqrt (1 / 64) = 1 / 8"
  "sqrt (1 / 5184) = 1 / 72" "sqrt (1 / 16) = 1 / 4" "sqrt (81 / 1600) = 9 / 40"
  by (rule sqrt_of_square, simp, simp)+

lemma sqrt_half: "sqrt (1 / 2) = sqrt 2 / 2"
proof (rule sqrt_of_square)
  show "0 \<le> sqrt 2 / 2"
    by simp
  show "1 / 2 = sqrt 2 / 2 * (sqrt 2 / 2)"
    by simp
qed

subsection \<open>The convergence test\<close>

lemma leBail_iter_result:
  "fst (leBail_iter xc pint ax ia pf args b tol st h) = Inr (st', stop) \<Longrightarrow>
   \<exists>rwp sim obs. lb_rwp st' = Some rwp \<and>
     get_floats (snd (leBail_iter xc pint ax ia pf args b tol st h)) (data_intensity (lb_simul_spec st')) = Inr sim \<and>
     get_floats (snd (leBail_iter xc pint ax ia pf args b tol st h)) ia = Inr obs \<and>
     Rwp_eval sim obs = Inr rwp \<and>
     stop = flt (fabs (fdiv (fsub rwp (lb_rwp0 st)) rwp)) tol \<and>
     lb_rwp0 st' = (if stop then lb_rwp0 st else rwp) \<and>
     lb_iters st' = Suc (lb_iters st)"
  apply (simp add: leBail_iter_def Let_def split: sum.split_asm prod.split_asm)
  apply auto
  done


lemma leBail_loop_iters:
  "leBail_loop n xc pint ax ia pf args b tol st h = (Inr st', h') \<Longrightarrow>
   lb_iters st' \<le> lb_iters st + n \<and>
   (lb_iters st' < lb_iters st + n \<longrightarrow>
      (\<exists>rwp. lb_rwp st' = Some rwp \<and> flt (fabs (fdiv (fsub rwp (lb_rwp0 st')) rwp)) tol))"
proof (induction n arbitrary: st h)
  case 0
  then show ?case by simp
next
  case (Suc n)
  obtain r1 h1 where it: "leBail_iter xc pint ax ia pf args b tol st h = (r1, h1)"
    by (cases "leBail_iter xc pint ax ia pf args b tol st h")
  show ?case
  proof (cases r1)
    case (Inl e)
    then show ?thesis using Suc.prems it by simp
  next
    case (Inr p)
    obtain st1 stop where p: "p = (st1, stop)" by (cases p)
    have "fst (leBail_iter xc pint ax ia pf args b tol st h) = Inr (st1, stop)"
      using it Inr p by simp
    from leBail_iter_result[OF this] obtain rwp where
      rwp: "lb_rwp st1 = Some rwp" "stop = flt (fabs (fdiv (fsub rwp (lb_rwp0 st)) rwp)) tol"
        "lb_rwp0 st1 = (if stop then lb_rwp0 st else rwp)" "lb_iters st1 = Suc (lb_iters st)"
      by blast
    show ?thesis
    proof (cases stop)
      case True
      then have "st' = st1" using Suc.prems it Inr p by simp
      then show ?thesis using rwp True by auto
    next
      case False
      then have "leBail_loop n xc pint ax ia pf args b tol st1 h1 = (Inr st', h')"
        using Suc.prems it Inr p by simp
      from Suc.IH[OF this] show ?thesis using rwp(4) by simp
    qed
  qed
qed

lemma leBail_loop_last:
  "leBail_loop n xc pint ax ia pf args b tol st h = (Inr st', h') \<Longrightarrow> 0 < n \<Longrightarrow>
   \<exists>rwp. lb_rwp st' = Some rwp \<and>
     (flt (fabs (fdiv (fsub rwp (lb_rwp0 st')) rwp)) tol \<or>
      lb_rwp0 st' = rwp \<and> lb_iters st' = lb_iters st + n)"
proof (induction n arbitrary: st h)
  case 0
  then show ?case by simp
next
  case (Suc n)
  obtain r1 h1 where it: "leBail_iter xc pint ax ia pf args b tol st h = (r1, h1)"
    by (cases "leBail_iter xc pint ax ia pf args b tol st h")
  show ?case
  proof (cases r1)
    case (Inl e)
    then show ?thesis using Suc.prems it by simp
  next
    case (Inr p)
    obtain st1 stop where p: "p = (st1, stop)" by (cases p)
    have "fst (leBail_iter xc pint ax ia pf args b tol st h) = Inr (st1, stop)"
      using it Inr p by simp
    from leBail_iter_result[OF this] obtain rwp where
      rwp: "lb_rwp st1 = Some rwp" "stop = flt (fabs (fdiv (fsub rwp (lb_rwp0 st)) rwp)) tol"
        "lb_rwp0 st1 = (if stop then lb_rwp0 st else rwp)" "lb_iters st1 = Suc (lb_iters st)"
      by blast
    show ?thesis
    proof (cases stop)
      case True
      then have "st' = st1" using Suc.prems it Inr p by simp
      then show ?thesis using rwp True by auto
    next
      case False
      then have run: "leBail_loop n xc pint ax ia pf args b tol st1 h1 = (Inr st', h')"
        using Suc.prems it Inr p by simp
      show ?thesis
      proof (cases n)
        case 0
        then have "st' = st1" using run by simp
        then show ?thesis using rwp False 0 by simp
      next
        case (Suc m)
        then have "0 < n" by simp
        from Suc.IH[OF run this] show ?thesis using rwp(4) by simp
      qed
    qed
  qed
qed

lemma xrd_leBail_Ifit_steps:
  "xrd_leBail_Ifit (PeakSet xp) (Dataset ex) pf args b tol max_iter h = (Inr (xc, sd, sp, rwp), h') \<Longrightarrow>
   \<exists>h1 p st0 h2 st. deepcopy_xpeaks xp h = (Inr xc, h1) \<and>
      leBail_start xc ex pf args b h1 = (Inr (p, st0), h2) \<and>
      leBail_loop (nat max_iter) xc p (data_theta2 ex) (data_intensity ex) pf args b tol st0 h2 =
        (Inr st, h') \<and>
      lb_rwp st = Some rwp \<and> sd = lb_simul_spec st \<and> sp = lb_simul_peaks st"
  by (simp add: xrd_leBail_Ifit_def split: sum.split_asm prod.split_asm option.split_asm)

text \<open>
  Claim C3, amended: in every iteration the loop stops exactly when
  \<open>abs((rwp - rwp0)/rwp) < rwp_tol\<close>, the change of Rwp relative to its new value: \<open>rwp\<close> is
  the Rwp of the spectrum simulated in this iteration, and \<open>rwp0\<close> is the Rwp of the spectrum
  simulated in the iteration before, or before the loop for the first iteration. The
  comparison is false when the quotient is NaN. Otherwise \<open>rwp0\<close> becomes \<open>rwp\<close> and the loop
  goes on with the iterations that are left. A loop of \<open>n\<close> iterations that returns has run
  at most \<open>n\<close> of them, and fewer only when the test held in its last iteration; when it has
  run all of them without the test holding, \<open>rwp0\<close> is the last Rwp. The refinement is the
  copy of the peak set, the first simulation and this loop of \<open>max_iter\<close> iterations.
\<close>

theorem leBail_stop_rule:
  "(\<forall>p st0 h1. leBail_start xc ex pf args b h0 = (Inr (p, st0), h1) \<longrightarrow>
      lb_rwp st0 = None \<and> lb_iters st0 = 0 \<and>
      (\<exists>sim obs. get_floats h1 (data_intensity (lb_simul_spec st0)) = Inr sim \<and>
         get_floats h1 (data_intensity ex) = Inr obs \<and>
         Rwp_eval sim obs = Inr (lb_rwp0 st0))) \<and>
   (\<forall>st' stop h'. leBail_iter xc pint ax ia pf args b tol st h = (Inr (st', stop), h') \<longrightarrow>
      (\<exists>rwp sim obs. lb_rwp st' = Some rwp \<and>
         get_floats h' (data_intensity (lb_simul_spec st')) = Inr sim \<and>
         get_floats h' ia = Inr obs \<and> Rwp_eval sim obs = Inr rwp \<and>
         stop = flt (fabs (fdiv (fsub rwp (lb_rwp0 st)) rwp)) tol \<and>
         lb_rwp0 st' = (if stop then lb_rwp0 st else rwp) \<and>
         lb_iters st' = Suc (lb_iters st) \<and>
         leBail_loop (Suc n) xc pint ax ia pf args b tol st h =
           (if stop then (Inr st', h') else leBail_loop n xc pint ax ia pf args b tol st' h'))) \<and>
   (\<forall>st' h'. leBail_loop n xc pint ax ia pf args b tol st h = (Inr st', h') \<longrightarrow>
      lb_iters st' \<le> lb_iters st + n \<and>
      (lb_iters st' < lb_iters st + n \<longrightarrow>
         (\<exists>rwp. lb_rwp st' = Some rwp \<and> flt (fabs (fdiv (fsub rwp (lb_rwp0 st')) rwp)) tol)) \<and>
      (0 < n \<longrightarrow>
         (\<exists>rwp. lb_rwp st' = Some rwp \<and>
            (flt (fabs (fdiv (fsub rwp (lb_rwp0 st')) rwp)) tol \<or>
             lb_rwp0 st' = rwp \<and> lb_iters st' = lb_iters st + n)))) \<and>
   (\<forall>xp sd sp rwp h'.
      xrd_leBail_Ifit (PeakSet xp) (Dataset ex) pf args b tol max_iter hc =
        (Inr (xc, sd, sp, rwp), h') \<longrightarrow>
      (\<exists>h1 p st0 h2 st'. deepcopy_xpeaks xp hc = (Inr xc, h1) \<and>
         leBail_start xc ex pf args b h1 = (Inr (p, st0), h2) \<and>
         leBail_loop (nat max_iter) xc p (data_theta2 ex) (data_intensity ex) pf args b tol
           st0 h2 = (Inr st', h') \<and>
         lb_rwp st' = Some rwp \<and> sd = lb_simul_spec st' \<and> sp = lb_simul_peaks st'))"
proof (intro conjI allI impI)
  fix p st0 h1
  assume start: "leBail_start xc ex pf args b h0 = (Inr (p, st0), h1)"
  then have f: "fst (leBail_start xc ex pf args b h0) = Inr (p, st0)"
    by simp
  from leBail_start_result[OF f] show "lb_rwp st0 = None"
    by simp
  from leBail_start_result[OF f] show "lb_iters st0 = 0"
    by simp
  from leBail_start_rwp0[OF f] start
  show "\<exists>sim obs. get_floats h1 (data_intensity (lb_simul_spec st0)) = Inr sim \<and>
         get_floats h1 (data_intensity ex) = Inr obs \<and>
         Rwp_eval sim obs = Inr (lb_rwp0 st0)"
    by simp
next
  fix st' stop h'
  assume it: "leBail_iter xc pint ax ia pf args b tol st h = (Inr (st', stop), h')"
  then have "fst (leBail_iter xc pint ax ia pf args b tol st h) = Inr (st', stop)"
    by simp
  from leBail_iter_result[OF this] obtain rwp sim obs where
    "lb_rwp st' = Some rwp"
    "get_floats h' (data_intensity (lb_simul_spec st')) = Inr sim"
    "get_floats h' ia = Inr obs" "Rwp_eval sim obs = Inr rwp"
    "stop = flt (fabs (fdiv (fsub rwp (lb_rwp0 st)) rwp)) tol"
    "lb_rwp0 st' = (if stop then lb_rwp0 st else rwp)"
    "lb_iters st' = Suc (lb_iters st)"
    using it by auto
  moreover have "leBail_loop (Suc n) xc pint ax ia pf args b tol st h =
      (if stop then (Inr st', h') else leBail_loop n xc pint ax ia pf args b tol st' h')"
    using it by simp
  ultimately show "\<exists>rwp sim obs. lb_rwp st' = Some rwp \<and>
         get_floats h' (data_intensity (lb_simul_spec st')) = Inr sim \<and>
         get_floats h' ia = Inr obs \<and> Rwp_eval sim obs = Inr rwp \<and>
         stop = flt (fabs (fdiv (fsub rwp (lb_rwp0 st)) rwp)) tol \<and>
         lb_rwp0 st' = (if stop then lb_rwp0 st else rwp) \<and>
         lb_iters st' = Suc (lb_iters st) \<and>
         leBail_loop (Suc n) xc pint ax ia pf args b tol st h =
           (if stop then (Inr st', h') else leBail_loop n xc pint ax ia pf args b tol st' h')"
    by blast
next
  fix st' h'
  assume "leBail_loop n xc pint ax ia pf args b tol st h = (Inr st', h')"
  from leBail_loop_iters[OF this]
  show "lb_iters st' \<le> lb_iters st + n"
    by (rule conjunct1)
next
  fix st' h'
  assume "leBail_loop n xc pint ax ia pf args b tol st h = (Inr st', h')"
    and "lb_iters st' < lb_iters st + n"
  with leBail_loop_iters
  show "\<exists>rwp. lb_rwp st' = Some rwp \<and> flt (fabs (fdiv (fsub rwp (lb_rwp0 st')) rwp)) tol"
    by blast
next
  fix st' h'
  assume "leBail_loop n xc pint ax ia pf args b tol st h = (Inr st', h')" and "0 < n"
  then show "\<exists>rwp. lb_rwp st' = Some rwp \<and>
            (flt (fabs (fdiv (fsub rwp (lb_rwp0 st')) rwp)) tol \<or>
             lb_rwp0 st' = rwp \<and> lb_iters st' = lb_iters st + n)"
    by (rule leBail_loop_last)
next
  fix xp sd sp rwp h'
  assume "xrd_leBail_Ifit (PeakSet xp) (Dataset ex) pf args b tol max_iter hc =
        (Inr (xc, sd, sp, rwp), h')"
  then show "\<exists>h1 p st0 h2 st'. deepcopy_xpeaks xp hc = (Inr xc, h1) \<and>
         leBail_start xc ex pf args b h1 = (Inr (p, st0), h2) \<and>
         leBail_loop (nat max_iter) xc p (data_theta2 ex) (data_intensity ex) pf args b tol
           st0 h2 = (Inr st', h') \<and>
         lb_rwp st' = Some rwp \<and> sd = lb_simul_spec st' \<and> sp = lb_simul_peaks st'"
    by (rule xrd_leBail_Ifit_steps)
qed

subsection \<open>A refinement without iteration\<close>

lemma leBail_no_iteration:
  assumes "max_iter \<le> 0"
    and "deepcopy_xpeaks xp h = (Inr xc, h1)"
    and "leBail_start xc ex pf args b h1 = (Inr s, h2)"
  shows "xrd_leBail_Ifit (PeakSet xp) (Dataset ex) pf args b tol max_iter h = (Inl UnboundLocalError, h2)"
proof -
  obtain pint st0 where s: "s = (pint, st0)" by (cases s)
  have "fst (leBail_start xc ex pf args b h1) = Inr (pint, st0)"
    using assms(3) s by simp
  then have "lb_rwp st0 = None"
    by (simp add: leBail_start_result)
  then show ?thesis
    using assms s by (simp add: xrd_leBail_Ifit_def)
qed

lemma leBail_no_iteration_error:
  assumes "max_iter \<le> 0"
  shows "\<exists>e. fst (xrd_leBail_Ifit xpeaks exp_spec pf args b tol max_iter h) = Inl e"
proof (cases xpeaks)
  case (PeakSet xp)
  show ?thesis
  proof (cases exp_spec)
    case (Dataset ex)
    obtain r1 h1 where dc: "deepcopy_xpeaks xp h = (r1, h1)"
      by (cases "deepcopy_xpeaks xp h")
    show ?thesis
    proof (cases r1)
      case (Inl e)
      then show ?thesis using PeakSet Dataset dc by (simp add: xrd_leBail_Ifit_def)
    next
      case xc: (Inr xc)
      obtain r2 h2 where st: "leBail_start xc ex pf args b h1 = (r2, h2)"
        by (cases "leBail_start xc ex pf args b h1")
      show ?thesis
      proof (cases r2)
        case (Inl e)
        then show ?thesis using PeakSet Dataset dc xc st by (simp add: xrd_leBail_Ifit_def)
      next
        case (Inr s)
        from leBail_no_iteration[OF assms] dc xc st Inr
        have "xrd_leBail_Ifit (PeakSet xp) (Dataset ex) pf args b tol max_iter h = (Inl UnboundLocalError, h2)"
          by simp
        then show ?thesis using PeakSet Dataset by simp
      qed
    qed
  qed (use PeakSet in \<open>simp_all add: xrd_leBail_Ifit_def\<close>)
qed (simp_all add: xrd_leBail_Ifit_def)

text \<open>
  Claim C9: \<^verbatim>\<open>xrd_leBail_Ifit\<close> returns normally only when \<open>max_iter\<close> is at least 1. For
  \<open>max_iter <= 0\<close> the loop body never runs, and a call that gets through the copy and the
  first simulation raises \<^verbatim>\<open>UnboundLocalError\<close> at the \<^verbatim>\<open>return\<close> statement, where \<^verbatim>\<open>rwp\<close>
  is read.
\<close>

theorem xrd_leBail_Ifit_needs_an_iteration:
  "(\<forall>r h'. xrd_leBail_Ifit xpeaks exp_spec pf args b tol max_iter h = (Inr r, h') \<longrightarrow> 1 \<le> max_iter) \<and>
   (\<forall>xp ex xc h1 s h2. max_iter \<le> 0 \<longrightarrow> xpeaks = PeakSet xp \<longrightarrow> exp_spec = Dataset ex \<longrightarrow>
      deepcopy_xpeaks xp h = (Inr xc, h1) \<longrightarrow> leBail_start xc ex pf args b h1 = (Inr s, h2) \<longrightarrow>
      xrd_leBail_Ifit xpeaks exp_spec pf args b tol max_iter h = (Inl UnboundLocalError, h2))"
proof (intro conjI allI impI)
  fix r h'
  assume ret: "xrd_leBail_Ifit xpeaks exp_spec pf args b tol max_iter h = (Inr r, h')"
  show "1 \<le> max_iter"
  proof (rule ccontr)
    assume "\<not> 1 \<le> max_iter"
    then have "max_iter \<le> 0" by simp
    from leBail_no_iteration_error[OF this, of xpeaks exp_spec pf args b tol h]
    show False using ret by simp
  qed
next
  fix xp ex xc h1 s h2
  assume "max_iter \<le> 0" "xpeaks = PeakSet xp" "exp_spec = Dataset ex"
    "deepcopy_xpeaks xp h = (Inr xc, h1)" "leBail_start xc ex pf args b h1 = (Inr s, h2)"
  then show "xrd_leBail_Ifit xpeaks exp_spec pf args b tol max_iter h = (Inl UnboundLocalError, h2)"
    using leBail_no_iteration by simp
qed

subsection \<open>Runs of the refinement on one peak\<close>

lemma one_peak_copied:
  "deepcopy_xpeaks one_peak (one_peak_heap 4) =
     (Inr one_peak_copy, one_peak_heap 4 @ [Arr1 [Fin 5], HklGroups [[(1, 0, 0)]], HklArr [(1, 0, 0)], Arr1 [Fin (1 / 2)], Arr1 [Fin 4]])"
  by (simp add: leBail_evals store_evals example_evals)

lemma one_peak_started:
  "leBail_start one_peak_copy one_point (Some lorentz_peak) (Some []) (Fin 0)
     (one_peak_heap 4 @ [Arr1 [Fin 5], HklGroups [[(1, 0, 0)]], HklArr [(1, 0, 0)], Arr1 [Fin (1 / 2)], Arr1 [Fin 4]]) =
     (Inr (12, started_state), started_heap)"
  by (simp add: leBail_evals store_evals array_evals example_evals sqrt_values)

theorem xrd_leBail_Ifit_needs_an_iteration_witness:
  "xrd_leBail_Ifit (PeakSet one_peak) (Dataset one_point) (Some lorentz_peak) (Some []) (Fin 0)
     (Fin (1 / 100)) 0 (one_peak_heap 4) = (Inl UnboundLocalError, started_heap)"
  using xrd_leBail_Ifit_needs_an_iteration [of "PeakSet one_peak" "Dataset one_point"
      "Some lorentz_peak" "Some []" "Fin 0" "Fin (1 / 100)" 0 "one_peak_heap 4"]
    one_peak_copied one_peak_started
  by simp

lemma damped_copied:
  "deepcopy_xpeaks one_peak (one_peak_heap 7) = (Inr one_peak_copy, one_peak_copied_heap 7)"
  by (simp add: leBail_evals store_evals example_evals one_peak_copied_heap_def)

lemma damped_started:
  "leBail_start one_peak_copy one_point (Some lorentz_peak) (Some []) (Fin 9)
     (one_peak_copied_heap 7) = (Inr (12, damped_state), damped_heap)"
  by (simp add: leBail_evals store_evals array_evals example_evals sqrt_values
      one_peak_copied_heap_def damped_heap_def damped_state_def)

lemma damped_first_iteration:
  "\<exists>st' h'. leBail_iter one_peak_copy 12 5 6 (Some lorentz_peak) (Some []) (Fin 9) (Fin 1)
      damped_state damped_heap = (Inr (st', False), h') \<and>
      lb_rwp st' = Some (Fin (1 / 4)) \<and> lb_rwp0 st' = Fin (1 / 4)"
  by (simp add: leBail_iter_def xrd_spec_simul_def simul_peak_func_def
      simul_arrays_def call_peak_func_def Rwp_eval_def leBail_rescale_I_def store_evals
      array_evals example_evals sqrt_values one_peak_copied_heap_def damped_heap_def
      damped_state_def)

lemma damped_loop:
  "\<exists>st' h'. leBail_loop 3 one_peak_copy 12 5 6 (Some lorentz_peak) (Some []) (Fin 9) (Fin 1)
      damped_state damped_heap = (Inr st', h') \<and> lb_iters st' = 2 \<and>
      lb_rwp st' = Some (Fin (9 / 40)) \<and> lb_rwp0 st' = Fin (1 / 4)"
  by (simp add: numeral_3_eq_3 leBail_iter_def xrd_spec_simul_def simul_peak_func_def
      simul_arrays_def call_peak_func_def Rwp_eval_def leBail_rescale_I_def store_evals
      array_evals example_evals sqrt_values one_peak_copied_heap_def damped_heap_def
      damped_state_def)

lemma damped_run:
  "\<exists>sd sp h'. xrd_leBail_Ifit (PeakSet one_peak) (Dataset one_point) (Some lorentz_peak)
      (Some []) (Fin 9) (Fin 1) 3 (one_peak_heap 7) =
        (Inr (one_peak_copy, sd, sp, Fin (9 / 40)), h') \<and>
      lookup h' (intensity one_peak_copy) = Some (Arr1 [Fin (4 / 5)])"
  by (simp add: leBail_evals store_evals array_evals example_evals sqrt_values numeral_3_eq_3)

text \<open>
  A run that stops in its second iteration. The caller's intensity is 7, the baseline 9,
  the observed intensity 8 and \<open>rwp_tol = 1\<close>. Rwp is 1 before the loop, \<open>1/4\<close> after the
  first iteration (a change of 3 relative to the new value: the loop goes on) and \<open>9/40\<close>
  after the second, a change of \<open>1/9\<close> from the first iteration's Rwp: the loop stops with
  one iteration left. Against the Rwp before the loop the change would be \<open>31/9\<close>. The
  refinement returns the intensity \<open>4/5\<close> and the Rwp \<open>9/40\<close>.
\<close>

theorem leBail_stop_rule_witness:
  "leBail_start one_peak_copy one_point (Some lorentz_peak) (Some []) (Fin 9)
     (one_peak_copied_heap 7) = (Inr (12, damped_state), damped_heap) \<and>
   lb_rwp0 damped_state = Fin 1 \<and>
   (\<exists>sim obs.
      get_floats damped_heap (data_intensity (lb_simul_spec damped_state)) = Inr sim \<and>
      get_floats damped_heap (data_intensity one_point) = Inr obs \<and>
      Rwp_eval sim obs = Inr (Fin 1)) \<and>
   (\<exists>st1 h1. leBail_iter one_peak_copy 12 5 6 (Some lorentz_peak) (Some []) (Fin 9) (Fin 1)
      damped_state damped_heap = (Inr (st1, False), h1) \<and>
      lb_rwp st1 = Some (Fin (1 / 4)) \<and> lb_rwp0 st1 = Fin (1 / 4) \<and>
      lb_iters st1 = Suc (lb_iters damped_state) \<and>
      leBail_loop (Suc 3) one_peak_copy 12 5 6 (Some lorentz_peak) (Some []) (Fin 9) (Fin 1)
        damped_state damped_heap =
      leBail_loop 3 one_peak_copy 12 5 6 (Some lorentz_peak) (Some []) (Fin 9) (Fin 1) st1 h1) \<and>
   (\<exists>st' h'. leBail_loop 3 one_peak_copy 12 5 6 (Some lorentz_peak) (Some []) (Fin 9) (Fin 1)
      damped_state damped_heap = (Inr st', h') \<and> lb_iters st' = 2 \<and>
      lb_rwp st' = Some (Fin (9 / 40)) \<and> lb_rwp0 st' = Fin (1 / 4) \<and>
      (\<exists>rwp. lb_rwp st' = Some rwp \<and> flt (fabs (fdiv (fsub rwp (lb_rwp0 st')) rwp)) (Fin 1))) \<and>
   flt (fabs (fdiv (fsub (Fin (9 / 40)) (Fin (1 / 4))) (Fin (9 / 40)))) (Fin 1) \<and>
   \<not> flt (fabs (fdiv (fsub (Fin (9 / 40)) (Fin 1)) (Fin (9 / 40)))) (Fin 1) \<and>
   (\<exists>sd sp h'. xrd_leBail_Ifit (PeakSet one_peak) (Dataset one_point) (Some lorentz_peak)
      (Some []) (Fin 9) (Fin 1) 3 (one_peak_heap 7) =
        (Inr (one_peak_copy, sd, sp, Fin (9 / 40)), h') \<and>
      lookup h' (intensity one_peak_copy) = Some (Arr1 [Fin (4 / 5)]) \<and>
      (\<exists>h1 p st0 h2 st'. deepcopy_xpeaks one_peak (one_peak_heap 7) = (Inr one_peak_copy, h1) \<and>
         leBail_start one_peak_copy one_point (Some lorentz_peak) (Some []) (Fin 9) h1 =
           (Inr (p, st0), h2) \<and>
         leBail_loop (nat 3) one_peak_copy p (data_theta2 one_point) (data_intensity one_point)
           (Some lorentz_peak) (Some []) (Fin 9) (Fin 1) st0 h2 = (Inr st', h') \<and>
         lb_rwp st' = Some (Fin (9 / 40)) \<and> sd = lb_simul_spec st' \<and> sp = lb_simul_peaks st'))"
proof -
  note rule = leBail_stop_rule [where xc = one_peak_copy and ex = one_point
      and pf = "Some lorentz_peak" and args = "Some []" and b = "Fin 9"
      and ?h0.0 = "one_peak_copied_heap 7" and pint = 12 and ax = 5 and ia = 6 and tol = "Fin 1"
      and st = damped_state and h = damped_heap and n = 3 and max_iter = 3
      and hc = "one_peak_heap 7"]
  have r0: "lb_rwp0 damped_state = Fin 1"
    by (simp add: damped_state_def)
  from rule damped_started have
    "\<exists>sim obs.
      get_floats damped_heap (data_intensity (lb_simul_spec damped_state)) = Inr sim \<and>
      get_floats damped_heap (data_intensity one_point) = Inr obs \<and>
      Rwp_eval sim obs = Inr (lb_rwp0 damped_state)"
    by blast
  then have a: "\<exists>sim obs.
      get_floats damped_heap (data_intensity (lb_simul_spec damped_state)) = Inr sim \<and>
      get_floats damped_heap (data_intensity one_point) = Inr obs \<and>
      Rwp_eval sim obs = Inr (Fin 1)"
    by (simp only: r0)
  from damped_first_iteration obtain st1 h1 where
    it1: "leBail_iter one_peak_copy 12 5 6 (Some lorentz_peak) (Some []) (Fin 9) (Fin 1)
      damped_state damped_heap = (Inr (st1, False), h1)"
    and rw1: "lb_rwp st1 = Some (Fin (1 / 4))" "lb_rwp0 st1 = Fin (1 / 4)"
    by blast
  from rule it1 have "lb_iters st1 = Suc (lb_iters damped_state) \<and>
      leBail_loop (Suc 3) one_peak_copy 12 5 6 (Some lorentz_peak) (Some []) (Fin 9) (Fin 1)
        damped_state damped_heap =
      leBail_loop 3 one_peak_copy 12 5 6 (Some lorentz_peak) (Some []) (Fin 9) (Fin 1) st1 h1"
    by fastforce
  with it1 rw1 have b: "\<exists>st1 h1. leBail_iter one_peak_copy 12 5 6 (Some lorentz_peak) (Some []) (Fin 9) (Fin 1)
      damped_state damped_heap = (Inr (st1, False), h1) \<and>
      lb_rwp st1 = Some (Fin (1 / 4)) \<and> lb_rwp0 st1 = Fin (1 / 4) \<and>
      lb_iters st1 = Suc (lb_iters damped_state) \<and>
      leBail_loop (Suc 3) one_peak_copy 12 5 6 (Some lorentz_peak) (Some []) (Fin 9) (Fin 1)
        damped_state damped_heap =
      leBail_loop 3 one_peak_copy 12 5 6 (Some lorentz_peak) (Some []) (Fin 9) (Fin 1) st1 h1"
    by blast
  from damped_loop obtain st' h' where
    run: "leBail_loop 3 one_peak_copy 12 5 6 (Some lorentz_peak) (Some []) (Fin 9) (Fin 1)
      damped_state damped_heap = (Inr st', h')" and it: "lb_iters st' = 2"
    and rw: "lb_rwp st' = Some (Fin (9 / 40))" "lb_rwp0 st' = Fin (1 / 4)"
    by blast
  have "lb_iters damped_state = 0"
    by (simp add: damped_state_def)
  with it have "lb_iters st' < lb_iters damped_state + 3"
    by simp
  with run rule
  have "\<exists>rwp. lb_rwp st' = Some rwp \<and> flt (fabs (fdiv (fsub rwp (lb_rwp0 st')) rwp)) (Fin 1)"
    by blast
  with run it rw have c: "\<exists>st' h'. leBail_loop 3 one_peak_copy 12 5 6 (Some lorentz_peak) (Some []) (Fin 9) (Fin 1)
      damped_state damped_heap = (Inr st', h') \<and> lb_iters st' = 2 \<and>
      lb_rwp st' = Some (Fin (9 / 40)) \<and> lb_rwp0 st' = Fin (1 / 4) \<and>
      (\<exists>rwp. lb_rwp st' = Some rwp \<and> flt (fabs (fdiv (fsub rwp (lb_rwp0 st')) rwp)) (Fin 1))"
    by blast
  have d: "flt (fabs (fdiv (fsub (Fin (9 / 40)) (Fin (1 / 4))) (Fin (9 / 40)))) (Fin 1)"
    "\<not> flt (fabs (fdiv (fsub (Fin (9 / 40)) (Fin 1)) (Fin (9 / 40)))) (Fin 1)"
    by (simp_all add: fsub_def)
  from damped_run obtain sd sp hr where
    full: "xrd_leBail_Ifit (PeakSet one_peak) (Dataset one_point) (Some lorentz_peak)
      (Some []) (Fin 9) (Fin 1) 3 (one_peak_heap 7) =
        (Inr (one_peak_copy, sd, sp, Fin (9 / 40)), hr)"
    and res: "lookup hr (intensity one_peak_copy) = Some (Arr1 [Fin (4 / 5)])"
    by blast
  from rule full have "\<exists>h1 p st0 h2 st'.
         deepcopy_xpeaks one_peak (one_peak_heap 7) = (Inr one_peak_copy, h1) \<and>
         leBail_start one_peak_copy one_point (Some lorentz_peak) (Some []) (Fin 9) h1 =
           (Inr (p, st0), h2) \<and>
         leBail_loop (nat 3) one_peak_copy p (data_theta2 one_point) (data_intensity one_point)
           (Some lorentz_peak) (Some []) (Fin 9) (Fin 1) st0 h2 = (Inr st', hr) \<and>
         lb_rwp st' = Some (Fin (9 / 40)) \<and> sd = lb_simul_spec st' \<and> sp = lb_simul_peaks st'"
    by blast
  with full res have e: "\<exists>sd sp h'. xrd_leBail_Ifit (PeakSet one_peak) (Dataset one_point) (Some lorentz_peak)
      (Some []) (Fin 9) (Fin 1) 3 (one_peak_heap 7) =
        (Inr (one_peak_copy, sd, sp, Fin (9 / 40)), h') \<and>
      lookup h' (intensity one_peak_copy) = Some (Arr1 [Fin (4 / 5)]) \<and>
      (\<exists>h1 p st0 h2 st'. deepcopy_xpeaks one_peak (one_peak_heap 7) = (Inr one_peak_copy, h1) \<and>
         leBail_start one_peak_copy one_point (Some lorentz_peak) (Some []) (Fin 9) h1 =
           (Inr (p, st0), h2) \<and>
         leBail_loop (nat 3) one_peak_copy p (data_theta2 one_point) (data_intensity one_point)
           (Some lorentz_peak) (Some []) (Fin 9) (Fin 1) st0 h2 = (Inr st', h') \<and>
         lb_rwp st' = Some (Fin (9 / 40)) \<and> sd = lb_simul_spec st' \<and> sp = lb_simul_peaks st')"
    by blast
  from damped_started r0 a b c d e show ?thesis
    by (intro conjI)
qed


text \<open>
  Claim C3 as stated fails: the source divides the change of Rwp by the new value, not by
  the previous one. With one peak of intensity 1, a baseline of 1, an observed intensity
  of 8 and \<open>rwp_tol = 1\<close>, Rwp is \<open>3/4\<close> before the loop and \<open>1/8\<close> after the first
  iteration. The change relative to the previous value is \<open>5/6\<close>, below the tolerance, but
  the source computes \<open>5\<close> and does not stop: with \<open>max_iter = 2\<close> a second iteration runs
  and changes the result.
\<close>

theorem leBail_stops_on_new_rwp:
  "(case deepcopy_xpeaks one_peak (one_peak_heap 1) of
      (Inr xc, h1) \<Rightarrow>
        (case leBail_start xc one_point (Some lorentz_peak) (Some []) (Fin 1) h1 of
           (Inr (peaks_int, st), h2) \<Rightarrow>
              (case leBail_iter xc peaks_int 5 6 (Some lorentz_peak) (Some []) (Fin 1) (Fin 1) st h2 of
                 (Inr (st', stop), h3) \<Rightarrow>
                    lb_rwp0 st = Fin (3 / 4) \<and> lb_rwp st' = Some (Fin (1 / 8)) \<and>
                    spec_converged (Fin (1 / 8)) (Fin (3 / 4)) (Fin 1) \<and> \<not> stop
               | _ \<Rightarrow> False)
         | _ \<Rightarrow> False)
    | _ \<Rightarrow> False) \<and>
   (case xrd_leBail_Ifit (PeakSet one_peak) (Dataset one_point) (Some lorentz_peak) (Some [])
           (Fin 1) (Fin 1) 1 (one_peak_heap 1) of
      (Inr (xc, simul_spec, simul_peaks, rwp), h') \<Rightarrow>
         lookup h' (intensity xc) = Some (Arr1 [Fin 8]) \<and> rwp = Fin (1 / 8)
    | _ \<Rightarrow> False) \<and>
   (case xrd_leBail_Ifit (PeakSet one_peak) (Dataset one_point) (Some lorentz_peak) (Some [])
           (Fin 1) (Fin 1) 2 (one_peak_heap 1) of
      (Inr (xc, simul_spec, simul_peaks, rwp), h') \<Rightarrow>
         lookup h' (intensity xc) = Some (Arr1 [Fin (64 / 9)]) \<and> rwp = Fin (1 / 72)
    | _ \<Rightarrow> False)"
  by (simp add: leBail_evals store_evals array_evals example_evals sqrt_values numeral_2_eq_2
      spec_converged_def)

text \<open>A run that refines the intensities of the copy and leaves the caller's array alone.\<close>

theorem xrd_leBail_Ifit_frame_witness:
  "(case xrd_leBail_Ifit (PeakSet one_peak) (Dataset one_point) (Some lorentz_peak) (Some [])
           (Fin 1) (Fin 1) 2 (one_peak_heap 1) of
      (Inr (xc, simul_spec, simul_peaks, rwp), h') \<Rightarrow>
         take 7 h' = one_peak_heap 1 \<and> 7 \<le> intensity xc \<and>
         lookup h' (intensity one_peak) = Some (Arr1 [Fin 1]) \<and>
         lookup h' (intensity xc) = Some (Arr1 [Fin (64 / 9)])
    | _ \<Rightarrow> False)"
proof -
  let ?run = "xrd_leBail_Ifit (PeakSet one_peak) (Dataset one_point) (Some lorentz_peak) (Some [])
           (Fin 1) (Fin 1) 2 (one_peak_heap 1)"
  have ev: "case ?run of
      (Inr (xc, simul_spec, simul_peaks, rwp), h') \<Rightarrow>
         lookup h' (intensity one_peak) = Some (Arr1 [Fin 1]) \<and>
         lookup h' (intensity xc) = Some (Arr1 [Fin (64 / 9)])
    | _ \<Rightarrow> False"
    by (simp add: leBail_evals store_evals array_evals example_evals sqrt_values numeral_2_eq_2)
  obtain res h' where run: "?run = (res, h')"
    by (cases ?run)
  have len: "length (one_peak_heap 1) = 7"
    by (simp add: one_peak_heap_def)
  from xrd_leBail_Ifit_frame [OF run] len
  have "take 7 h' = one_peak_heap 1"
    and "\<And>xc sd sp rwp. res = Inr (xc, sd, sp, rwp) \<Longrightarrow> 7 \<le> intensity xc"
    by auto
  with ev run show ?thesis
    by (auto split: sum.splits)
qed

text \<open>
  Claim C4 fails on the code. The function replaces a column sum that is not positive by
  \<open>+infinity\<close>, so that a peak that contributes nowhere gets the factor 0, but it divides by
  the calculated spectrum as it is: where \<open>calc[i]\<close> is zero the term is \<open>0/0\<close>, NaN, or
  infinite, and it reaches the factor, where the guarded formula gives 0. A peak set with
  zero intensities and no baseline, as \<^verbatim>\<open>powder_peaks\<close> builds it, has a zero calculated
  spectrum: the refinement returns NaN for the intensity, the simulated spectrum and Rwp.
\<close>

theorem leBail_rescale_I_unguarded_calc:
  "leBail_rescale_I (1, [[Fin 0]]) [Fin 0] [Fin 1] = Inr [NaN] \<and>
   spec_rescale_factor [[Fin 0]] [Fin 0] [Fin 1] 0 = Fin 0 \<and>
   leBail_rescale_I (1, [[Fin 1]]) [Fin 0] [Fin 1] = Inr [PInf] \<and>
   spec_rescale_factor [[Fin 1]] [Fin 0] [Fin 1] 0 = Fin 0 \<and>
   leBail_rescale_I (1, [[Fin 0]]) [Fin 2] [Fin 1] = Inr [Fin 0] \<and>
   (case xrd_leBail_Ifit (PeakSet one_peak) (Dataset one_point) (Some lorentz_peak) (Some [])
           (Fin 0) (Fin (1 / 100)) 2 (one_peak_heap 0) of
      (Inr (xc, simul_spec, simul_peaks, rwp), h') \<Rightarrow>
         lookup h' (intensity xc) = Some (Arr1 [NaN]) \<and>
         lookup h' (data_intensity simul_spec) = Some (Arr1 [NaN]) \<and> rwp = NaN
    | _ \<Rightarrow> False)"
proof -
  have "leBail_rescale_I (1, [[Fin 0]]) [Fin 0] [Fin 1] = Inr [NaN] \<and>
   spec_rescale_factor [[Fin 0]] [Fin 0] [Fin 1] 0 = Fin 0 \<and>
   leBail_rescale_I (1, [[Fin 1]]) [Fin 0] [Fin 1] = Inr [PInf] \<and>
   spec_rescale_factor [[Fin 1]] [Fin 0] [Fin 1] 0 = Fin 0 \<and>
   leBail_rescale_I (1, [[Fin 0]]) [Fin 2] [Fin 1] = Inr [Fin 0]"
    by (simp add: leBail_rescale_I_def spec_rescale_factor_def sum_axis0_def col_op_def
        op_col_def bcast2_def broadcastable_def bc_map2_def fsum_def fgt_def)
  moreover have "case xrd_leBail_Ifit (PeakSet one_peak) (Dataset one_point) (Some lorentz_peak)
           (Some []) (Fin 0) (Fin (1 / 100)) 2 (one_peak_heap 0) of
      (Inr (xc, simul_spec, simul_peaks, rwp), h') \<Rightarrow>
         lookup h' (intensity xc) = Some (Arr1 [NaN]) \<and>
         lookup h' (data_intensity simul_spec) = Some (Arr1 [NaN]) \<and> rwp = NaN
    | _ \<Rightarrow> False"
    by (simp add: leBail_evals store_evals array_evals example_evals sqrt_values numeral_2_eq_2)
  ultimately show ?thesis
    by simp
qed

lemma nat_1_add_int: "nat (1 + int n) = Suc n"
  by simp

lemma one_peak_refined:
  "(case xrd_leBail_Ifit (PeakSet one_peak) (Dataset one_point) (Some lorentz_peak) (Some [])
           (Fin 0) (Fin (1 / 100)) (int (Suc n)) (one_peak_heap 4) of
      (Inr (xc, simul_spec, simul_peaks, rwp), h') \<Rightarrow>
         lookup h' (intensity xc) = Some (Arr1 [Fin 4]) \<and>
         lookup h' (data_intensity simul_spec) = Some (Arr1 [Fin 4]) \<and> rwp = Fin (1 / 2)
    | _ \<Rightarrow> False)"
  by (simp add: leBail_evals store_evals array_evals example_evals sqrt_values nat_1_add_int)

text \<open>
  Claim C1 fails on the code. The uniform starting guess \<open>max(int_axis)/4\<close> is computed
  into the new array \<^verbatim>\<open>peaks_int\<close>, but it is not stored in \<^verbatim>\<open>xpeaks.intensity\<close> before the
  first simulation, which therefore uses the caller's intensities. For one peak of
  intensity 4 and an observed intensity of 8, \<^verbatim>\<open>peaks_int\<close> is 2 while the first simulated
  spectrum is 4 and the initial Rwp is \<open>1/2\<close> (from the guess they would be 2 and \<open>3/4\<close>).
  The first rescale factor, 2, is derived from that spectrum and applied to the guess: the
  refinement returns the intensity 4 with Rwp \<open>1/2\<close>, where refining from the guess reaches
  the observed 8 in one step.
\<close>

theorem leBail_first_simulation_from_caller_intensities:
  "(case deepcopy_xpeaks one_peak (one_peak_heap 4) of
      (Inr xc, h1) \<Rightarrow>
        (case leBail_start xc one_point (Some lorentz_peak) (Some []) (Fin 0) h1 of
           (Inr (peaks_int, st), h2) \<Rightarrow>
              lookup h2 peaks_int = Some (Arr1 [Fin 2]) \<and>
              lookup h2 (intensity xc) = Some (Arr1 [Fin 4]) \<and>
              lookup h2 (data_intensity (lb_simul_spec st)) = Some (Arr1 [Fin 4]) \<and>
              lb_rwp0 st = Fin (1 / 2)
         | _ \<Rightarrow> False)
    | _ \<Rightarrow> False) \<and>
   (case xrd_leBail_Ifit (PeakSet one_peak) (Dataset one_point) (Some lorentz_peak) (Some [])
           (Fin 0) (Fin (1 / 100)) 100 (one_peak_heap 4) of
      (Inr (xc, simul_spec, simul_peaks, rwp), h') \<Rightarrow>
         lookup h' (intensity xc) = Some (Arr1 [Fin 4]) \<and>
         lookup h' (data_intensity simul_spec) = Some (Arr1 [Fin 4]) \<and> rwp = Fin (1 / 2)
    | _ \<Rightarrow> False)"
proof -
  have "int (Suc 99) = 100"
    by simp
  with one_peak_refined [of 99] have "case xrd_leBail_Ifit (PeakSet one_peak) (Dataset one_point) (Some lorentz_peak) (Some [])
           (Fin 0) (Fin (1 / 100)) 100 (one_peak_heap 4) of
      (Inr (xc, simul_spec, simul_peaks, rwp), h') \<Rightarrow>
         lookup h' (intensity xc) = Some (Arr1 [Fin 4]) \<and>
         lookup h' (data_intensity simul_spec) = Some (Arr1 [Fin 4]) \<and> rwp = Fin (1 / 2)
    | _ \<Rightarrow> False"
    by (simp only:)
  moreover have "case deepcopy_xpeaks one_peak (one_peak_heap 4) of
      (Inr xc, h1) \<Rightarrow>
        (case leBail_start xc one_point (Some lorentz_peak) (Some []) (Fin 0) h1 of
           (Inr (peaks_int, st), h2) \<Rightarrow>
              lookup h2 peaks_int = Some (Arr1 [Fin 2]) \<and>
              lookup h2 (intensity xc) = Some (Arr1 [Fin 4]) \<and>
              lookup h2 (data_intensity (lb_simul_spec st)) = Some (Arr1 [Fin 4]) \<and>
              lb_rwp0 st = Fin (1 / 2)
         | _ \<Rightarrow> False)
    | _ \<Rightarrow> False"
    by (simp add: one_peak_copied one_peak_started)
      (simp add: started_heap_def started_state_def one_peak_heap_def one_peak_copy_def
        lookup_def nth_append)
  ultimately show ?thesis
    by (rule conjI[rotated])
qed

subsection \<open>The peak set of a powder\<close>

lemma arcsin_sqrt_half: "arcsin (sqrt (1 / 2)) = pi / 4"
proof -
  have "arcsin (sin (pi / 4)) = pi / 4"
    by (rule arcsin_sin) (use pi_gt_zero in simp_all)
  then show ?thesis by (simp add: sin_45 sqrt_half)
qed

lemma np_round_whole: "np_round rint 60 6 = 60" "np_round rint 90 6 = 90"
  by (simp_all add: np_round_def rint_def)

lemma np_round_hundreds: "np_round rint 60 (- 2) = 100" "np_round rint 90 (- 2) = 100"
  by (simp_all add: np_round_def rint_def)

lemma round_step_pos: "0 < round_step d"
  by (simp add: round_step_def)

lemma np_round_on_grid: "\<exists>k::int. np_round to_int x d = of_int k * round_step d"
proof (cases "0 \<le> d")
  case True
  then have "np_round to_int x d = of_int (to_int (x * 10 ^ nat d)) * round_step d"
    by (simp add: np_round_def round_step_def)
  then show ?thesis ..
next
  case False
  then have "np_round to_int x d = of_int (to_int (x / 10 ^ nat (- d))) * round_step d"
    by (simp add: np_round_def round_step_def)
  then show ?thesis ..
qed

lemma grid_gap:
  assumes x: "x = of_int k * round_step d" and y: "y = of_int l * round_step d" and lt: "x < y"
  shows "x + round_step d \<le> y"
proof -
  have "(of_int k :: real) < of_int l"
    using lt round_step_pos [of d] unfolding x y by (simp add: mult_less_cancel_right)
  then have "k + 1 \<le> l"
    by simp
  then have "(of_int (k + 1) :: real) \<le> of_int l"
    by (simp only: of_int_le_iff)
  then have "of_int (k + 1) * round_step d \<le> of_int l * round_step d"
    using round_step_pos [of d] by (simp only: mult_le_cancel_right_pos)
  then show ?thesis
    unfolding x y by (simp add: algebra_simps)
qed

lemma np_unique_sorted:
  "sorted_wrt (<) (fst (np_unique ar)) \<and> set (fst (np_unique ar)) = set ar \<and>
   length (fst (snd (np_unique ar))) = length (fst (np_unique ar))"
  by (simp add: np_unique_def Let_def strict_sorted_iff)

lemma merge_peaks_invariant:
  assumes "merge_peaks to_int d grid inv_ds thetas = (angles, groups, uniq, ds)"
  shows "sorted_wrt (<) angles \<and>
    list_all (\<lambda>a. \<exists>k::int. a = of_int k * round_step d) angles \<and>
    length groups = length angles \<and> length uniq = length angles \<and> length ds = length angles"
proof -
  let ?ar = "map (\<lambda>t. np_round to_int (2 * t * 180 / pi) d) thetas"
  from assms have r: "angles = fst (np_unique ?ar)"
    "length groups = length (fst (np_unique ?ar))"
    "length uniq = length (fst (snd (np_unique ?ar)))"
    "length ds = length (fst (snd (np_unique ?ar)))"
    by (auto simp: merge_peaks_def Let_def)
  have "set angles = set ?ar"
    using r(1) np_unique_sorted[of ?ar] by simp
  then have "list_all (\<lambda>a. \<exists>k::int. a = of_int k * round_step d) angles"
    using np_round_on_grid by (auto simp: list_all_iff)
  then show ?thesis
    using r np_unique_sorted[of ?ar] by simp
qed

lemma peak_arrays_invariant:
  assumes "peak_arrays env w d latt rule = Inr (angles, groups, uniq, ds)"
  shows "sorted_wrt (<) angles \<and>
    list_all (\<lambda>a. \<exists>k::int. a = of_int k * round_step d) angles \<and>
    length groups = length angles \<and> length uniq = length angles \<and> length ds = length angles"
proof -
  from assms obtain grid inv_ds thetas where
    "merge_peaks (np_rint env) d grid inv_ds thetas = (angles, groups, uniq, ds)"
    by (auto simp: peak_arrays_def Let_def split: if_split_asm)
  then show ?thesis
    by (rule merge_peaks_invariant)
qed

text \<open>
  Claim C8: in the peak set that \<^verbatim>\<open>powder_peaks\<close> returns, the angles are finite and
  strictly ascending, so no two are equal; each is a whole multiple of the rounding step of
  \<^verbatim>\<open>self.theta2_digits\<close> (\<open>10^-digits\<close>), so that two neighbouring angles are at least one
  step apart: no two peaks share a value at that precision. The five arrays (angles,
  groups of reflections, representative reflections, inverse distances, intensities) have
  the same length. This holds whichever neighbouring integer \<^verbatim>\<open>np.rint\<close> returns.
\<close>

theorem powder_peaks_invariant:
  assumes "powder_peaks env self atoms latt_abc n opt h = (Inr xp, h')"
  shows "\<exists>angles groups uniq ds ints.
     lookup h' (theta2 xp) = Some (Arr1 (map Fin angles)) \<and>
     lookup h' (hkl xp) = Some (HklGroups groups) \<and>
     lookup h' (hkl_unique xp) = Some (HklArr uniq) \<and>
     lookup h' (invd xp) = Some (Arr1 ds) \<and>
     lookup h' (intensity xp) = Some (Arr1 ints) \<and>
     sorted_wrt flt (map Fin angles) \<and> distinct (map Fin angles) \<and>
     list_all (\<lambda>a. \<exists>k::int. a = of_int k * round_step (self_theta2_digits self)) angles \<and>
     sorted_wrt (\<lambda>a b. a + round_step (self_theta2_digits self) \<le> b) angles \<and>
     length groups = length angles \<and> length uniq = length angles \<and>
     length ds = length angles \<and> length ints = length angles"
proof -
  from assms obtain latt rule where "resolve_lattice env atoms latt_abc n opt = Inr (latt, rule)"
    by (auto simp: powder_peaks_def split: sum.splits)
  with assms obtain angles groups uniq ds where
    pa: "peak_arrays env (self_lambdax self) (self_theta2_digits self) latt rule =
           Inr (angles, groups, uniq, ds)"
    by (auto simp: powder_peaks_def split: sum.splits)
  from peak_arrays_invariant[OF pa]
  have inv: "sorted_wrt (<) angles"
    "list_all (\<lambda>a. \<exists>k::int. a = of_int k * round_step (self_theta2_digits self)) angles"
    "length groups = length angles" "length uniq = length angles" "length ds = length angles"
    by simp_all
  have res: "xp = \<lparr>theta2 = length h, hkl = Suc (length h), hkl_unique = Suc (Suc (length h)),
        invd = Suc (Suc (Suc (length h))), intensity = Suc (Suc (Suc (Suc (length h)))),
        lambdax = self_lambdax self\<rparr>"
    "h' = h @ [Arr1 (map Fin angles), HklGroups groups, HklArr uniq, Arr1 (map Fin ds),
        Arr1 (replicate (length angles) (Fin 0))]"
    using assms \<open>resolve_lattice env atoms latt_abc n opt = Inr (latt, rule)\<close> pa
    by (auto simp: powder_peaks_def alloc_def)
  have s: "sorted_wrt flt (map Fin angles)"
    using inv(1) by (simp add: sorted_wrt_map)
  have d: "distinct (map Fin angles)"
    using inv(1) by (simp add: distinct_map strict_sorted_iff inj_on_def)
  have g: "sorted_wrt (\<lambda>a b. a + round_step (self_theta2_digits self) \<le> b) angles"
  proof (rule sorted_wrt_mono_rel [OF _ inv(1)])
    fix x y
    assume "x \<in> set angles" "y \<in> set angles" "x < y"
    from inv(2) have on_grid:
      "\<forall>a\<in>set angles. \<exists>k::int. a = of_int k * round_step (self_theta2_digits self)"
      by (simp add: list_all_iff)
    from on_grid \<open>x \<in> set angles\<close> obtain k :: int where
      k: "x = of_int k * round_step (self_theta2_digits self)"
      by blast
    from on_grid \<open>y \<in> set angles\<close> obtain l :: int where
      l: "y = of_int l * round_step (self_theta2_digits self)"
      by blast
    from k l \<open>x < y\<close> show "x + round_step (self_theta2_digits self) \<le> y"
      by (rule grid_gap)
  qed
  have l: "lookup h' (theta2 xp) = Some (Arr1 (map Fin angles))"
    "lookup h' (hkl xp) = Some (HklGroups groups)"
    "lookup h' (hkl_unique xp) = Some (HklArr uniq)"
    "lookup h' (invd xp) = Some (Arr1 (map Fin ds))"
    "lookup h' (intensity xp) = Some (Arr1 (replicate (length angles) (Fin 0)))"
    by (simp_all add: res lookup_def nth_append)
  have n: "length (map Fin ds) = length angles"
    "length (replicate (length angles) (Fin 0)) = length angles"
    using inv(5) by simp_all
  show ?thesis
    using l s d inv(2) g inv(3) inv(4) n by blast
qed

lemma cubic_peak_arrays:
  "peak_arrays cubic_env 2 6 cubic_latt (\<lambda>_. True) =
     Inr ([60, 90],
          [[(0, - 1, 0), (- 1, 0, 0), (1, 0, 0), (0, 1, 0)],
           [(- 1, - 1, 0), (1, - 1, 0), (- 1, 1, 0), (1, 1, 0)]],
          [(0, - 1, 0), (- 1, - 1, 0)], [1 / 2, sqrt (1 / 2)])"
  by (simp add: peak_arrays_def merge_peaks_def cubic_env_def hkl_mesh_def quad_form_def Let_def
      upto.simps sqrt_values arcsin_sqrt_half np_round_whole np_unique_def first_index_def)

lemma coarse_peak_arrays:
  "peak_arrays cubic_env 2 (- 2) cubic_latt (\<lambda>_. True) =
     Inr ([100],
          [[(- 1, - 1, 0), (0, - 1, 0), (1, - 1, 0), (- 1, 0, 0),
            (1, 0, 0), (- 1, 1, 0), (0, 1, 0), (1, 1, 0)]],
          [(- 1, - 1, 0)], [sqrt (1 / 2)])"
  by (simp add: peak_arrays_def merge_peaks_def cubic_env_def hkl_mesh_def quad_form_def Let_def
      upto.simps sqrt_values arcsin_sqrt_half np_round_hundreds np_unique_def first_index_def)

lemma cubic_resolved:
  "resolve_lattice cubic_env None (Some cubic_latt) 1 OptAll = Inr (cubic_latt, \<lambda>_. True)"
  by (simp add: resolve_lattice_def cubic_env_def cubic_latt_def)

lemma cubic_peaks:
  "powder_peaks cubic_env cubic_calculator None (Some cubic_latt) 1 OptAll [] =
     (Inr cubic_peak_set, cubic_peak_heap)"
  by (simp add: powder_peaks_def cubic_resolved cubic_peak_arrays cubic_calculator_def
      default_calculator_def cubic_peak_set_def cubic_peak_heap_def alloc_def numeral_2_eq_2)

lemma coarse_peaks:
  "powder_peaks cubic_env coarse_calculator None (Some cubic_latt) 1 OptAll [] =
     (Inr coarse_peak_set, coarse_peak_heap)"
  by (simp add: powder_peaks_def cubic_resolved coarse_peak_arrays coarse_calculator_def
      cubic_calculator_def default_calculator_def coarse_peak_set_def coarse_peak_heap_def
      alloc_def)

text \<open>
  Two runs on the same lattice. At six digits the reflections make two peaks, at 60 and 90
  degrees. Rounding to hundreds of degrees puts both angles on 100: the eight reflections
  are one peak.
\<close>

theorem powder_peaks_invariant_witness:
  "powder_peaks cubic_env cubic_calculator None (Some cubic_latt) 1 OptAll [] =
     (Inr cubic_peak_set, cubic_peak_heap) \<and>
   lookup cubic_peak_heap (theta2 cubic_peak_set) = Some (Arr1 [Fin 60, Fin 90]) \<and>
   powder_peaks cubic_env coarse_calculator None (Some cubic_latt) 1 OptAll [] =
     (Inr coarse_peak_set, coarse_peak_heap) \<and>
   lookup coarse_peak_heap (theta2 coarse_peak_set) = Some (Arr1 [Fin 100]) \<and>
   round_step (self_theta2_digits coarse_calculator) = 100 \<and>
   (\<exists>angles groups uniq ds ints.
     lookup coarse_peak_heap (theta2 coarse_peak_set) = Some (Arr1 (map Fin angles)) \<and>
     lookup coarse_peak_heap (hkl coarse_peak_set) = Some (HklGroups groups) \<and>
     lookup coarse_peak_heap (hkl_unique coarse_peak_set) = Some (HklArr uniq) \<and>
     lookup coarse_peak_heap (invd coarse_peak_set) = Some (Arr1 ds) \<and>
     lookup coarse_peak_heap (intensity coarse_peak_set) = Some (Arr1 ints) \<and>
     sorted_wrt flt (map Fin angles) \<and> distinct (map Fin angles) \<and>
     list_all (\<lambda>a. \<exists>k::int. a = of_int k * round_step (self_theta2_digits coarse_calculator))
       angles \<and>
     sorted_wrt (\<lambda>a b. a + round_step (self_theta2_digits coarse_calculator) \<le> b) angles \<and>
     length groups = length angles \<and> length uniq = length angles \<and>
     length ds = length angles \<and> length ints = length angles)"
proof -
  have a: "lookup cubic_peak_heap (theta2 cubic_peak_set) = Some (Arr1 [Fin 60, Fin 90])"
    by (simp add: lookup_def cubic_peak_heap_def cubic_peak_set_def)
  have b: "lookup coarse_peak_heap (theta2 coarse_peak_set) = Some (Arr1 [Fin 100])"
    by (simp add: lookup_def coarse_peak_heap_def coarse_peak_set_def)
  have c: "round_step (self_theta2_digits coarse_calculator) = 100"
    by (simp add: round_step_def coarse_calculator_def)
  from cubic_peaks a coarse_peaks b c powder_peaks_invariant [OF coarse_peaks] show ?thesis
    by (intro conjI)
qed

text \<open>
  Claim C2 fails on the code. When the lookup of the selection rule raises \<^verbatim>\<open>ValueError\<close>,
  the handler executes \<^verbatim>\<open>raise RuntimeWarning(...)\<close>: the call ends with that exception and
  no peak set, for a lattice with an unknown space group as for a structure with an
  unknown Hall number. The message of the exception says that no selection rules will be
  applied to the spectrum.
\<close>

theorem powder_peaks_unknown_symmetry_raises:
  "powder_peaks cubic_env cubic_calculator None (Some cubic_latt) 0 OptAll [] =
     (Inl RuntimeWarning, []) \<and>
   powder_peaks cubic_env cubic_calculator (Some ()) None 1 OptAll [] = (Inl RuntimeWarning, [])"
  by (simp add: powder_peaks_def resolve_lattice_def cubic_env_def cubic_latt_def)

subsection \<open>The calculator and its peak function\<close>

text \<open>
  Claim C5 fails on the code. The constructor does not keep the precision it is given:
  \<^verbatim>\<open>XRDCalculator(theta2_digits=2)\<close> is the calculator that \<^verbatim>\<open>XRDCalculator()\<close> builds, with
  a precision of 6 digits, and \<^verbatim>\<open>powder_peaks\<close> rounds to \<^verbatim>\<open>self.theta2_digits\<close>.
\<close>

theorem XRDCalculator_init_ignores_theta2_digits:
  "XRDCalculator_init (154056 / 100000) 2 (Fin 0) None None = Inr default_calculator \<and>
   self_theta2_digits default_calculator = 6"
  by (simp add: XRDCalculator_init_def set_peak_func_def default_calculator_def)

text \<open>
  Claim C10: a call of \<^verbatim>\<open>set_peak_func\<close> that raises leaves the calculator as it was, and
  a peak function with fewer than two parameters, or with more parameters without a
  default after the first two than arguments are supplied, makes it raise \<^verbatim>\<open>ValueError\<close>.
\<close>

theorem set_peak_func_atomic:
  "(\<forall>e self'. set_peak_func self peak_func peak_f_args = (Inl e, self') \<longrightarrow> self' = self) \<and>
   (\<forall>f. peak_func = Some f \<longrightarrow>
      (length (fn_args f) < 2 \<or>
       int (length (case peak_f_args of None \<Rightarrow> [] | Some args \<Rightarrow> args)) <
         int (length (fn_args f)) -
           (2 + int (length (case fn_defaults f of None \<Rightarrow> [] | Some ds \<Rightarrow> ds)))) \<longrightarrow>
      set_peak_func self peak_func peak_f_args = (Inl ValueError, self))"
  by (auto simp: set_peak_func_def Let_def split: option.splits if_splits)

theorem set_peak_func_atomic_witness:
  "set_peak_func default_calculator (Some bad_func) None = (Inl ValueError, default_calculator) \<and>
   set_peak_func default_calculator (Some good_func) (Some [Fin 0]) =
     (Inl ValueError, default_calculator)"
  using set_peak_func_atomic [of default_calculator "Some bad_func" None]
    set_peak_func_atomic [of default_calculator "Some good_func" "Some [Fin 0]"]
  by (simp add: bad_func_def good_func_def)

text \<open>
  Claim C6 fails on the code: the two checks differ. \<^verbatim>\<open>xrd_spec_simul\<close> compares the
  number of all parameters with \<open>2 + len(peak_f_args)\<close>: it does not count the defaults and
  does not ask for two parameters. \<^verbatim>\<open>good_func\<close> with two arguments, which the test suite
  expects \<^verbatim>\<open>set_peak_func\<close> to accept, is refused by \<^verbatim>\<open>xrd_spec_simul\<close>; \<^verbatim>\<open>bad_func\<close>, which
  \<^verbatim>\<open>set_peak_func\<close> refuses, passes the check of \<^verbatim>\<open>xrd_spec_simul\<close> and fails when it is
  called, with \<^verbatim>\<open>TypeError\<close>.
\<close>

theorem peak_func_checks_differ:
  "fst (set_peak_func default_calculator (Some good_func) (Some [Fin 0, Fin 0])) = Inr () \<and>
   fst (xrd_spec_simul one_peak 5 (Some good_func) (Some [Fin 0, Fin 0]) (Fin 0) (one_peak_heap 4)) =
     Inl ValueError \<and>
   fst (set_peak_func default_calculator (Some bad_func) (Some [])) = Inl ValueError \<and>
   simul_peak_func (Some bad_func) (Some []) = Inr (bad_func, []) \<and>
   fst (xrd_spec_simul one_peak 5 (Some bad_func) (Some []) (Fin 0) (one_peak_heap 4)) =
     Inl TypeError"
  by (simp add: set_peak_func_def xrd_spec_simul_def simul_peak_func_def simul_arrays_def
      call_peak_func_def good_func_def bad_func_def store_evals one_peak_heap_def one_peak_def)

end
